theory Spec2Isabelle
  imports Complex_Main
begin

section \<open>The reduced-order model operator of \<^verbatim>\<open>palace/models/romoperator.cpp\<close>\<close>

text \<open>
  The embedding is over exact real and complex numbers: a \<^verbatim>\<open>double\<close> is a \<^typ>\<open>real\<close>,
  a \<^verbatim>\<open>std::complex<double>\<close> a \<^typ>\<open>complex\<close>. Rounding is not modelled. The two places
  where the code relies on IEEE values that the reals do not have (a division by zero
  producing an infinity or a NaN) are written out as branches of their own.
  The code runs collectively on all MPI ranks with identical replicated data; the model is
  the computation of one rank that owns the whole vector, so a global sum of local inner
  products is the inner product itself.
\<close>

subsection \<open>Values shared by all components\<close>

text \<open>\<^verbatim>\<open>constexpr auto ORTHOG_TOL = 1.0e-12;\<close>\<close>

definition ORTHOG_TOL :: real where
  "ORTHOG_TOL = 1 / 10 ^ 12"

text \<open>
  A failed \<^verbatim>\<open>MFEM_VERIFY\<close> aborts the program with a message, and a failed
  \<^verbatim>\<open>MFEM_ASSERT\<close> does so in a debug build. Dereferencing a null pointer has no defined
  behaviour. \<open>NotFinite\<close> is not an abort of the program: it marks the point where the code
  divides by a zero and goes on with infinities and NaNs, which the reals do not have. The
  model stops there; the text at each such point says what the code does next.
\<close>

datatype rom_error =
    VerifyFailed string
  | AssertFailed string
  | NullDereference string
  | NotFinite string

text \<open>
  What the code writes to the log: \<^verbatim>\<open>Mpi::Warning\<close> of \<^verbatim>\<open>ComputeMRI\<close> with its three
  arguments, and the progress lines (\<^verbatim>\<open>Mpi::Print\<close>) of the eigenvalue iterations with the
  iteration number.
\<close>

datatype log_event =
    WarningRankDeficient nat real real
  | PrintMSLPIteration nat
  | PrintRIIInner nat
  | PrintRIIIteration nat nat
  | PrintMu nat
  | PrintEigenvalue nat

fun is_warning :: "log_event \<Rightarrow> bool" where
  "is_warning (WarningRankDeficient m sm s0) = True"
| "is_warning (PrintMSLPIteration it) = False"
| "is_warning (PrintRIIInner it) = False"
| "is_warning (PrintRIIIteration it inner_it) = False"
| "is_warning (PrintMu i) = False"
| "is_warning (PrintEigenvalue k) = False"

text \<open>
  A dense Eigen matrix: its dimensions and its coefficients. The coefficients outside the
  dimensions stand for the memory that \<^verbatim>\<open>conservativeResize\<close> leaves uninitialised: a
  resize changes the dimensions and keeps the function.
\<close>

record MatrixXcd =
  rows :: nat
  cols :: nat
  coef :: "nat \<Rightarrow> nat \<Rightarrow> complex"

text \<open>
  The singular value decomposition is Eigen's \<^verbatim>\<open>JacobiSVD\<close>, an external library: the
  model takes its result, the singular values \<^verbatim>\<open>svd.singularValues()\<close> and the columns
  of \<^verbatim>\<open>svd.matrixV()\<close>, as a parameter.
\<close>

record svd_result =
  singularValues :: "real list"
  matrixV_col :: "nat \<Rightarrow> complex list"

text \<open>The assignment \<^verbatim>\<open>A(i, j) = v\<close>.\<close>

definition set_coef :: "MatrixXcd \<Rightarrow> nat \<Rightarrow> nat \<Rightarrow> complex \<Rightarrow> MatrixXcd" where
  "set_coef A i j v = A\<lparr>coef := (coef A)(i := (coef A i)(j := v))\<rparr>"

definition setZero :: "MatrixXcd \<Rightarrow> MatrixXcd" where
  "setZero A = A\<lparr>coef := (\<lambda>i j. 0)\<rparr>"

text \<open>\<^verbatim>\<open>A += c * B\<close> on dense matrices, coefficient by coefficient.\<close>

definition add_scaled :: "MatrixXcd \<Rightarrow> complex \<Rightarrow> MatrixXcd \<Rightarrow> MatrixXcd" where
  "add_scaled A c B = A\<lparr>coef := (\<lambda>i j. coef A i j + c * coef B i j)\<rparr>"

subsection \<open>Full-order vectors and operators\<close>

text \<open>
  An \<^verbatim>\<open>mfem::Vector\<close> is the list of its entries, a \<^verbatim>\<open>ComplexVector\<close> the pair of its real
  and imaginary parts (\<^verbatim>\<open>Real()\<close>, \<^verbatim>\<open>Imag()\<close>). The operations of \<^verbatim>\<open>mfem::Vector\<close> act entry
  by entry; \<^verbatim>\<open>mfem\<close> requires equal sizes of its operands.
\<close>

type_synonym Vector = "real list"

record ComplexVector =
  Real_part :: Vector
  Imag_part :: Vector

definition Size :: "ComplexVector \<Rightarrow> nat" where
  "Size x = length (Real_part x)"

text \<open>\<^verbatim>\<open>x = 0.0\<close>: every entry set to zero, the size kept.\<close>

definition set_zero :: "Vector \<Rightarrow> Vector" where
  "set_zero x = map (\<lambda>xi. 0) x"

text \<open>\<^verbatim>\<open>x * y\<close> of \<^verbatim>\<open>mfem::Vector\<close>, which is \<^verbatim>\<open>LocalDot\<close> of \<^verbatim>\<open>linalg/vector.cpp\<close>.\<close>

definition LocalDot :: "Vector \<Rightarrow> Vector \<Rightarrow> real" where
  "LocalDot x y = sum_list (map (\<lambda>(xi, yi). xi * yi) (zip x y))"

text \<open>\<^verbatim>\<open>y.Add(alpha, x)\<close>: \<open>y += alpha x\<close>; \<^verbatim>\<open>y += x\<close>; \<^verbatim>\<open>y *= c\<close>; \<^verbatim>\<open>add(a, x, b, y, z)\<close>: \<open>z = a x + b y\<close>.\<close>

definition Vector_Add :: "Vector \<Rightarrow> real \<Rightarrow> Vector \<Rightarrow> Vector" where
  "Vector_Add y alpha x = map (\<lambda>(yi, xi). yi + alpha * xi) (zip y x)"

definition Vector_plus :: "Vector \<Rightarrow> Vector \<Rightarrow> Vector" where
  "Vector_plus y x = map (\<lambda>(yi, xi). yi + xi) (zip y x)"

definition Vector_scale :: "Vector \<Rightarrow> real \<Rightarrow> Vector" where
  "Vector_scale y c = map (\<lambda>yi. yi * c) y"

definition mfem_add :: "real \<Rightarrow> Vector \<Rightarrow> real \<Rightarrow> Vector \<Rightarrow> Vector" where
  "mfem_add a x b y = map (\<lambda>(xi, yi). a * xi + b * yi) (zip x y)"

text \<open>
  The templates for \<^verbatim>\<open>Vector\<close> of \<^verbatim>\<open>linalg/vector.cpp\<close>:
  \<^verbatim>\<open>AXPY(alpha, x, y)\<close>, \<^verbatim>\<open>AXPBY(alpha, x, beta, y)\<close> and \<^verbatim>\<open>AXPBYPCZ(alpha, x, beta, y, gamma, z)\<close>,
  each returning the vector it updates.
\<close>

definition AXPY :: "real \<Rightarrow> Vector \<Rightarrow> Vector \<Rightarrow> Vector" where
  "AXPY alpha x y = (if alpha = 1 then Vector_plus y x else Vector_Add y alpha x)"

definition AXPBY :: "real \<Rightarrow> Vector \<Rightarrow> real \<Rightarrow> Vector \<Rightarrow> Vector" where
  "AXPBY alpha x beta y = mfem_add alpha x beta y"

definition AXPBYPCZ :: "real \<Rightarrow> Vector \<Rightarrow> real \<Rightarrow> Vector \<Rightarrow> real \<Rightarrow> Vector \<Rightarrow> Vector" where
  "AXPBYPCZ alpha x beta y gamma zv =
     (if gamma = 0 then mfem_add alpha x beta y
      else Vector_Add (AXPBY alpha x gamma zv) beta y)"


text \<open>
  A \<^verbatim>\<open>ComplexOperator\<close>: its real and imaginary parts, each of which may be absent
  (\<^verbatim>\<open>HasReal()\<close>, \<^verbatim>\<open>HasImag()\<close>), applied with \<^verbatim>\<open>Mult\<close>.
\<close>

record ComplexOperator =
  Real_op :: "(Vector \<Rightarrow> Vector) option"
  Imag_op :: "(Vector \<Rightarrow> Vector) option"
  Height :: nat

definition HasReal :: "ComplexOperator \<Rightarrow> bool" where
  "HasReal A = (Real_op A \<noteq> None)"

definition HasImag :: "ComplexOperator \<Rightarrow> bool" where
  "HasImag A = (Imag_op A \<noteq> None)"

subsection \<open>Galerkin projection: \<^verbatim>\<open>ProjectMatInternal\<close>, \<^verbatim>\<open>ProjectVecInternal\<close>\<close>

text \<open>
  The body of the loop over the new columns \<open>j\<close>: the operator is applied to \<open>V[j]\<close> into the
  work vector \<open>r\<close> (a part that the operator lacks keeps its old value), then column \<open>j\<close> of
  \<open>Ar\<close> is filled for all rows \<open>i < n\<close>. The state of the loop is \<open>(Ar, r)\<close>.
\<close>

definition ProjectMat_entry :: "Vector list \<Rightarrow> ComplexOperator \<Rightarrow> ComplexVector \<Rightarrow> nat \<Rightarrow> complex" where
  "ProjectMat_entry Vb A rv i =
     Complex (if HasReal A then LocalDot (Vb ! i) (Real_part rv) else 0)
             (if HasImag A then LocalDot (Vb ! i) (Imag_part rv) else 0)"

definition ProjectMat_column ::
  "Vector list \<Rightarrow> ComplexOperator \<Rightarrow> nat \<Rightarrow> MatrixXcd \<times> ComplexVector \<Rightarrow> nat \<Rightarrow> MatrixXcd \<times> ComplexVector" where
  "ProjectMat_column Vb A n st j =
     (let rv0 = snd st;
          rv1 = (case Real_op A of Some f \<Rightarrow> rv0\<lparr>Real_part := f (Vb ! j)\<rparr> | None \<Rightarrow> rv0);
          rv2 = (case Imag_op A of Some f \<Rightarrow> rv1\<lparr>Imag_part := f (Vb ! j)\<rparr> | None \<Rightarrow> rv1)
      in (foldl (\<lambda>B i. set_coef B i j (ProjectMat_entry Vb A rv2 i)) (fst st) [0..<n],
          rv2))"

text \<open>The loop that fills the lower block: \<^verbatim>\<open>Ar(i, j) = Ar(j, i)\<close> for \<open>j < n0 \<le> i < n\<close>.\<close>

definition ProjectMat_lower :: "nat \<Rightarrow> nat \<Rightarrow> MatrixXcd \<Rightarrow> MatrixXcd" where
  "ProjectMat_lower n0 n B0 =
     foldl (\<lambda>B j. foldl (\<lambda>B' i. set_coef B' i j (coef B' j i)) B [n0..<n]) B0 [0..<n0]"

definition ProjectMatInternal ::
  "Vector list \<Rightarrow> ComplexOperator \<Rightarrow> MatrixXcd \<Rightarrow> ComplexVector \<Rightarrow> nat
     \<Rightarrow> rom_error + (MatrixXcd \<times> ComplexVector)" where
  "ProjectMatInternal Vb A B rv n0 =
     (let n = rows B in
      if \<not> n0 < n then Inl (VerifyFailed ''Invalid dimensions in PROM matrix projection!'')
      else if \<not> (HasReal A \<or> HasImag A)
      then Inl (VerifyFailed ''Invalid zero ComplexOperator for PROM matrix projection!'')
      else (case foldl (ProjectMat_column Vb A n) (B, rv) [n0..<n] of
              (B1, rv1) \<Rightarrow> Inr (ProjectMat_lower n0 n B1, rv1)))"

definition ProjectVecInternal ::
  "Vector list \<Rightarrow> ComplexVector \<Rightarrow> complex list \<Rightarrow> nat \<Rightarrow> rom_error + complex list" where
  "ProjectVecInternal Vb b br n0 =
     (let n = length br in
      if \<not> n0 < n then Inl (VerifyFailed ''Invalid dimensions in PROM vector projection!'')
      else Inr (foldl (\<lambda>br' i. br'[i := Complex (LocalDot (Vb ! i) (Real_part b))
                                                (LocalDot (Vb ! i) (Imag_part b))])
                  br [n0..<n]))"

subsection \<open>Minimal rational interpolation: \<^verbatim>\<open>ComputeMRI\<close>\<close>

text \<open>
  \<^verbatim>\<open>auto m = S - 1; while (m > 0 && sigma[m] < ORTHOG_TOL * sigma[0]) { Mpi::Warning(...); m--; }\<close>
  started at \<open>m\<close>: the final index and the warnings in the order they are emitted.
\<close>

fun mri_deflate :: "real list \<Rightarrow> nat \<Rightarrow> nat \<times> log_event list" where
  "mri_deflate sigma 0 = (0, [])"
| "mri_deflate sigma (Suc m) =
     (if sigma ! Suc m < ORTHOG_TOL * sigma ! 0
      then (case mri_deflate sigma m of
              (m', ws) \<Rightarrow> (m', WarningRankDeficient (Suc m) (sigma ! Suc m) (sigma ! 0) # ws))
      else (Suc m, []))"

definition ComputeMRI ::
  "(MatrixXcd \<Rightarrow> svd_result) \<Rightarrow> MatrixXcd \<Rightarrow> rom_error + (complex list \<times> log_event list)" where
  "ComputeMRI svd R =
     (let S = rows R in
      if \<not> (S > 0 \<and> cols R = S)
      then Inl (AssertFailed ''Invalid dimension mismatch when computing MRI!'')
      else (let sv = svd R;
                sigma = singularValues sv
            in case mri_deflate sigma (S - 1) of
                 (m, ws) \<Rightarrow> Inr (matrixV_col sv m, ws)))"

subsection \<open>The state of a \<^verbatim>\<open>RomOperator\<close> and its collaborators\<close>

datatype OrthogType = MGS | CGS | CGS2

text \<open>
  The calls that the operator makes to its \<^verbatim>\<open>SpaceOperator\<close> for the parameter-dependent
  terms, with the frequency passed. The state records them in the order they are made.
\<close>

datatype spaceop_call =
    CallGetExtraSystemMatrix real
  | CallGetExcitationVector2 real

text \<open>
  The \<^verbatim>\<open>SpaceOperator\<close>, the linear solver \<^verbatim>\<open>ksp\<close> and Eigen's dense solver are not part of
  the sources: the model takes what they return as parameters.
  \<^item> \<open>GetStiffnessMatrix\<close>, \<open>GetDampingMatrix\<close>, \<open>GetMassMatrix\<close>: the operators \<open>K\<close>, \<open>C\<close>, \<open>M\<close>
    (\<open>None\<close> is \<^verbatim>\<open>nullptr\<close>);
  \<^item> \<open>GetExcitationVector1\<close>: the flag returned and the vector written;
  \<^item> \<open>GetExtraSystemMatrix omega\<close>: the operator \<open>A2(omega)\<close> or \<^verbatim>\<open>nullptr\<close>;
  \<^item> \<open>GetExcitationVector2 omega\<close>: the flag returned and the vector \<open>RHS2(omega)\<close> written to
    the argument (the argument is an output only);
  \<^item> \<open>ksp_Mult omega A2 r u\<close>: the solution that \<^verbatim>\<open>ksp->Mult(r, u)\<close> writes to \<open>u\<close> after
    \<^verbatim>\<open>ksp->SetOperators(*A, *P)\<close> for the system matrix and preconditioner at \<open>omega\<close>;
  \<^item> \<open>partialPivLu_solve A b\<close>: \<^verbatim>\<open>A.partialPivLu().solve(b)\<close>;
  \<^item> \<open>JacobiSVD R\<close>: the singular value decomposition that \<^verbatim>\<open>ComputeMRI\<close> uses;
  \<^item> \<open>OrthogonalizeColumn_Q type Q w j\<close>: \<^verbatim>\<open>OrthogonalizeColumn\<close> on the complex snapshot
    basis (\<^verbatim>\<open>linalg/orthog.hpp\<close>): the orthogonalized \<open>w\<close> and the \<open>j\<close> coefficients.
\<close>

record Externals =
  GetStiffnessMatrix :: "ComplexOperator option"
  GetDampingMatrix :: "ComplexOperator option"
  GetMassMatrix :: "ComplexOperator option"
  GetExcitationVector1 :: "bool \<times> ComplexVector"
  GetExtraSystemMatrix :: "real \<Rightarrow> ComplexOperator option"
  GetExcitationVector2 :: "real \<Rightarrow> bool \<times> ComplexVector"
  ksp_Mult :: "real \<Rightarrow> ComplexOperator option \<Rightarrow> ComplexVector \<Rightarrow> ComplexVector \<Rightarrow> ComplexVector"
  partialPivLu_solve :: "MatrixXcd \<Rightarrow> complex list \<Rightarrow> complex list"
  JacobiSVD :: "MatrixXcd \<Rightarrow> svd_result"
  OrthogonalizeColumn_Q :: "OrthogType \<Rightarrow> ComplexVector list \<Rightarrow> ComplexVector \<Rightarrow> nat \<Rightarrow> ComplexVector \<times> complex list"

text \<open>
  The data members of \<^verbatim>\<open>RomOperator\<close>. The one-letter members carry a suffix:
  \<open>K_op\<close>, \<open>C_op\<close>, \<open>M_op\<close> are \<open>K\<close>, \<open>C\<close>, \<open>M\<close>; \<open>r_work\<close> is \<open>r\<close>; \<open>V_basis\<close>, \<open>Q_basis\<close> are
  \<open>V\<close>, \<open>Q\<close>; \<open>R_mat\<close>, \<open>z_samples\<close>, \<open>q_weights\<close>, \<open>S_samples\<close> are \<open>R\<close>, \<open>z\<close>, \<open>q\<close>, \<open>S\<close>.
  \<open>calls\<close> and \<open>messages\<close> are not members: they record the collaborator calls made and the
  log lines written so far.
\<close>

record RomOperator =
  K_op :: ComplexOperator
  C_op :: "ComplexOperator option"
  M_op :: ComplexOperator
  RHS1 :: ComplexVector
  has_A2 :: bool
  has_RHS2 :: bool
  r_work :: ComplexVector
  V_basis :: "Vector list"
  dim_V :: nat
  Q_basis :: "ComplexVector list"
  dim_Q :: nat
  orthog_type :: OrthogType
  Kr :: MatrixXcd
  Cr :: MatrixXcd
  Mr :: MatrixXcd
  Ar :: MatrixXcd
  RHS1r :: "complex list"
  RHSr :: "complex list"
  R_mat :: MatrixXcd
  z_samples :: "real list"
  q_weights :: "complex list"
  S_samples :: "real list"
  calls :: "spaceop_call list"
  messages :: "log_event list"

subsection \<open>Construction: \<^verbatim>\<open>RomOperator::RomOperator\<close>\<close>


subsection \<open>The full-order solve: \<^verbatim>\<open>RomOperator::SolveHDM\<close>\<close>




subsection \<open>Orthogonalization of a new column\<close>







subsection \<open>The basis update: \<^verbatim>\<open>RomOperator::UpdatePROM\<close>\<close>








text \<open>\<^verbatim>\<open>ComplexVector::operator*=\<close> of \<^verbatim>\<open>linalg/vector.cpp\<close>.\<close>

definition ComplexVector_scale :: "ComplexVector \<Rightarrow> complex \<Rightarrow> ComplexVector" where
  "ComplexVector_scale x c =
     (let sr = Re c; si = Im c in
      if si = 0
      then \<lparr>Real_part = Vector_scale (Real_part x) sr, Imag_part = Vector_scale (Imag_part x) sr\<rparr>
      else \<lparr>Real_part = map (\<lambda>(xr, xi). sr * xr - si * xi) (zip (Real_part x) (Imag_part x)),
            Imag_part = map (\<lambda>(xr, xi). si * xr + sr * xi) (zip (Real_part x) (Imag_part x))\<rparr>)"



subsection \<open>The reduced solve: \<^verbatim>\<open>RomOperator::SolvePROM\<close>\<close>

text \<open>
  The expansion loop \<^verbatim>\<open>for (std::size_t j = 0; j < dim_V; j += 2)\<close>, started at \<open>j\<close>, on the
  vector \<open>u\<close>: two basis vectors per pass, and one in the last pass of an odd \<open>dim_V\<close>.
\<close>

function SolvePROM_expand ::
  "Vector list \<Rightarrow> complex list \<Rightarrow> nat \<Rightarrow> nat \<Rightarrow> ComplexVector \<Rightarrow> ComplexVector" where
  "SolvePROM_expand Vb y n j u =
     (if j < n
      then (if j + 1 < n
            then SolvePROM_expand Vb y n (j + 2)
                   \<lparr>Real_part = AXPBYPCZ (Re (y ! j)) (Vb ! j) (Re (y ! (j + 1))) (Vb ! (j + 1)) 1 (Real_part u),
                    Imag_part = AXPBYPCZ (Im (y ! j)) (Vb ! j) (Im (y ! (j + 1))) (Vb ! (j + 1)) 1 (Imag_part u)\<rparr>
            else SolvePROM_expand Vb y n (j + 2)
                   \<lparr>Real_part = AXPY (Re (y ! j)) (Vb ! j) (Real_part u),
                    Imag_part = AXPY (Im (y ! j)) (Vb ! j) (Imag_part u)\<rparr>)
      else u)"
  by pat_completeness auto
termination
  by (relation "measure (\<lambda>(Vb, y, n, j, u). n - j)") auto

declare SolvePROM_expand.simps [simp del]

text \<open>
  \<^verbatim>\<open>Ar += Kr; if (Cr.rows() > 0) { Ar += (1i * omega) * Cr; } Ar += (-omega * omega) * Mr;\<close>
  on the matrix \<open>B\<close> that holds the projected \<open>A2\<close> term or zero.
\<close>

definition assemble_Ar :: "RomOperator \<Rightarrow> real \<Rightarrow> MatrixXcd \<Rightarrow> MatrixXcd" where
  "assemble_Ar s omega B =
     (let B1 = add_scaled B 1 (Kr s);
          B2 = (if rows (Cr s) > 0 then add_scaled B1 (\<i> * of_real omega) (Cr s) else B1)
      in add_scaled B2 (of_real (- omega * omega)) (Mr s))"

text \<open>
  \<^verbatim>\<open>if (RHS1.Size()) { RHSr += (1i * omega) * RHS1r; }\<close> on the vector \<open>b\<close> that holds the
  projected \<open>RHS2\<close> term or zero.
\<close>

definition assemble_RHSr :: "RomOperator \<Rightarrow> real \<Rightarrow> complex list \<Rightarrow> complex list" where
  "assemble_RHSr s omega b =
     (if Size (RHS1 s) \<noteq> 0
      then map (\<lambda>(bi, b1). bi + (\<i> * of_real omega) * b1) (zip b (RHS1r s))
      else b)"

text \<open>
  The assembly of \<open>Ar\<close>: the new state, or the abort of \<^verbatim>\<open>ProjectMatInternal\<close>. Dereferencing
  a null \<^verbatim>\<open>A2\<close> has no defined behaviour in C++; the model stops there.
\<close>

definition SolvePROM_Ar ::
  "Externals \<Rightarrow> real \<Rightarrow> RomOperator \<Rightarrow> rom_error + RomOperator" where
  "SolvePROM_Ar ext omega s =
     (if has_A2 s
      then (case GetExtraSystemMatrix ext omega of
              None \<Rightarrow> Inl (NullDereference ''A2'')
            | Some A2 \<Rightarrow>
                (case ProjectMatInternal (V_basis s) A2 (Ar s) (r_work s) 0 of
                   Inl e \<Rightarrow> Inl e
                 | Inr (B, rv) \<Rightarrow>
                     Inr (s\<lparr>Ar := assemble_Ar s omega B, r_work := rv,
                            calls := calls s @ [CallGetExtraSystemMatrix omega]\<rparr>)))
      else Inr (s\<lparr>Ar := assemble_Ar s omega (setZero (Ar s))\<rparr>))"

text \<open>The assembly of \<open>RHSr\<close>. The flag that \<^verbatim>\<open>GetExcitationVector2\<close> returns is not used here.\<close>

definition SolvePROM_RHSr ::
  "Externals \<Rightarrow> real \<Rightarrow> RomOperator \<Rightarrow> rom_error + RomOperator" where
  "SolvePROM_RHSr ext omega s =
     (if has_RHS2 s
      then (case GetExcitationVector2 ext omega of
              (flag, rv) \<Rightarrow>
                (case ProjectVecInternal (V_basis s) rv (RHSr s) 0 of
                   Inl e \<Rightarrow> Inl e
                 | Inr b \<Rightarrow>
                     Inr (s\<lparr>RHSr := assemble_RHSr s omega b, r_work := rv,
                            calls := calls s @ [CallGetExcitationVector2 omega]\<rparr>)))
      else Inr (s\<lparr>RHSr := assemble_RHSr s omega (map (\<lambda>b. 0) (RHSr s))\<rparr>))"

text \<open>
  \<^verbatim>\<open>SolvePROM(omega, u)\<close>: the new state (with the reduced solution in \<open>RHSr\<close>) and the
  expanded vector written to \<open>u\<close>. The branch \<^verbatim>\<open>if constexpr (false)\<close> with the LDLT solve is
  not compiled.
\<close>

definition SolvePROM ::
  "Externals \<Rightarrow> real \<Rightarrow> ComplexVector \<Rightarrow> RomOperator \<Rightarrow> rom_error + (RomOperator \<times> ComplexVector)" where
  "SolvePROM ext omega u s =
     (case SolvePROM_Ar ext omega s of
        Inl e \<Rightarrow> Inl e
      | Inr s1 \<Rightarrow>
          (case SolvePROM_RHSr ext omega s1 of
             Inl e \<Rightarrow> Inl e
           | Inr s2 \<Rightarrow>
               (let y = partialPivLu_solve ext (Ar s2) (RHSr s2);
                    s3 = s2\<lparr>RHSr := y\<rparr>;
                    u0 = \<lparr>Real_part = set_zero (Real_part u), Imag_part = set_zero (Imag_part u)\<rparr>
                in Inr (s3, SolvePROM_expand (V_basis s3) y (dim_V s3) 0 u0))))"

subsection \<open>Sequences of calls\<close>




subsection \<open>The error indicator search: \<^verbatim>\<open>RomOperator::FindMaxError\<close>\<close>

text \<open>
  A \<^verbatim>\<open>double\<close> that is either finite or not (an infinity or a NaN). \<^verbatim>\<open>Q_star\<close> starts as
  \<^verbatim>\<open>mfem::infinity()\<close>.
\<close>

datatype ieee = Finite real | NonFinite

text \<open>
  \<^verbatim>\<open>Q < Q_star\<close> in IEEE arithmetic, for a \<^verbatim>\<open>Q_star\<close> that is a finite number or
  \<open>+\<infinity>\<close>: a NaN compares false with everything, and no infinity that \<^verbatim>\<open>std::abs\<close>
  returns is below anything.
\<close>

fun ieee_less :: "ieee \<Rightarrow> ieee \<Rightarrow> bool" where
  "ieee_less (Finite a) (Finite b) = (a < b)"
| "ieee_less (Finite a) NonFinite = True"
| "ieee_less NonFinite b = False"

text \<open>
  \<^verbatim>\<open>std::abs((q.array() / (z.array() - omega)).sum())\<close>. Where a sample \<open>z\<^sub>s\<close> equals
  \<open>omega\<close> the quotient divides a complex number by the real zero: both components are an
  infinity or a NaN, so is the sum, and \<^verbatim>\<open>std::abs\<close> of it is \<open>+\<infinity>\<close> or NaN.
\<close>

definition Q_abs :: "complex list \<Rightarrow> real list \<Rightarrow> real \<Rightarrow> ieee" where
  "Q_abs q z omega =
     (if omega \<in> set (map snd (zip q z)) then NonFinite
      else Finite (cmod (sum_list (map (\<lambda>(qs, zs). qs / of_real (zs - omega)) (zip q z)))))"

text \<open>One pass of the loop body, on the pair \<^verbatim>\<open>(omega_star, Q_star)\<close>.\<close>

definition FindMaxError_step ::
  "complex list \<Rightarrow> real list \<Rightarrow> real \<Rightarrow> real \<Rightarrow> real \<times> ieee \<Rightarrow> nat \<Rightarrow> real \<times> ieee" where
  "FindMaxError_step q z start delta st step =
     (let omega = start + real step * delta;
          Q = Q_abs q z omega
      in if ieee_less Q (snd st) then (omega, Q) else st)"

definition FindMaxError ::
  "complex list \<Rightarrow> real list \<Rightarrow> real \<Rightarrow> real \<Rightarrow> int \<Rightarrow> rom_error + real" where
  "FindMaxError q z start0 delta0 num_steps =
     (let start = (if delta0 < 0 then start0 + (of_int num_steps - 1) * delta0 else start0);
          delta = (if delta0 < 0 then - delta0 else delta0);
          st = foldl (FindMaxError_step q z start delta) (0, NonFinite) [0..<nat num_steps];
          omega_star = fst st
      in if omega_star > 0 then Inr omega_star
         else Inl (VerifyFailed ''Unable to find location for maximum error!''))"

text \<open>The loop invariant of the search: nothing selected yet, or a candidate with a finite value.\<close>

definition FindMaxError_inv :: "complex list \<Rightarrow> real list \<Rightarrow> real \<times> ieee \<Rightarrow> bool" where
  "FindMaxError_inv q z st =
     (case snd st of NonFinite \<Rightarrow> fst st = 0 | Finite a \<Rightarrow> fst st \<notin> set (map snd (zip q z)))"

subsection \<open>Dense linear algebra of the eigenvalue iterations\<close>

text \<open>
  Products and norms of Eigen's dense matrices and vectors (a dense vector is the list of
  its coefficients): \<^verbatim>\<open>T * x\<close>, \<^verbatim>\<open>A * B\<close>, \<^verbatim>\<open>x.norm()\<close>, \<^verbatim>\<open>T.norm()\<close> (the Frobenius norm),
  \<^verbatim>\<open>x.adjoint() * y\<close>, \<^verbatim>\<open>Identity(n, n)\<close> and \<^verbatim>\<open>x * x.adjoint()\<close>.
\<close>

definition mat_vec :: "MatrixXcd \<Rightarrow> complex list \<Rightarrow> complex list" where
  "mat_vec T x = map (\<lambda>i. sum_list (map (\<lambda>j. coef T i j * x ! j) [0..<cols T])) [0..<rows T]"

definition mat_mul :: "MatrixXcd \<Rightarrow> MatrixXcd \<Rightarrow> MatrixXcd" where
  "mat_mul A B =
     \<lparr>rows = rows A, cols = cols B,
      coef = (\<lambda>i j. sum_list (map (\<lambda>k. coef A i k * coef B k j) [0..<cols A]))\<rparr>"

definition vec_norm :: "complex list \<Rightarrow> real" where
  "vec_norm x = sqrt (sum_list (map (\<lambda>xi. (cmod xi)\<^sup>2) x))"

definition mat_norm :: "MatrixXcd \<Rightarrow> real" where
  "mat_norm T =
     sqrt (sum_list (map (\<lambda>i. sum_list (map (\<lambda>j. (cmod (coef T i j))\<^sup>2) [0..<cols T])) [0..<rows T]))"

definition adjoint_dot :: "complex list \<Rightarrow> complex list \<Rightarrow> complex" where
  "adjoint_dot x y = sum_list (map (\<lambda>(xi, yi). cnj xi * yi) (zip x y))"

definition Identity :: "nat \<Rightarrow> MatrixXcd" where
  "Identity n = \<lparr>rows = n, cols = n, coef = (\<lambda>i j. if i = j then 1 else 0)\<rparr>"

definition outer_adjoint :: "complex list \<Rightarrow> MatrixXcd" where
  "outer_adjoint x = \<lparr>rows = length x, cols = length x, coef = (\<lambda>i j. x ! i * cnj (x ! j))\<rparr>"

text \<open>
  \<^verbatim>\<open>x /= x.norm()\<close>. For a zero vector the code divides zero by zero and goes on with a
  vector of NaN.
\<close>

definition normalize_vec :: "complex list \<Rightarrow> rom_error + complex list" where
  "normalize_vec x =
     (if vec_norm x = 0 then Inl (NotFinite ''x /= x.norm()'')
      else Inr (map (\<lambda>xi. xi / of_real (vec_norm x)) x))"

text \<open>
  \<^verbatim>\<open>res = r.norm() / (T.norm() * x.norm())\<close>: where the denominator is zero so is the
  numerator (\<open>r = T x\<close>), and the quotient is a NaN. \<^verbatim>\<open>res < tol\<close> is false for a NaN.
\<close>

definition residual :: "MatrixXcd \<Rightarrow> complex list \<Rightarrow> ieee" where
  "residual T x =
     (if mat_norm T * vec_norm x = 0 then NonFinite
      else Finite (vec_norm (mat_vec T x) / (mat_norm T * vec_norm x)))"

fun ieee_below :: "ieee \<Rightarrow> real \<Rightarrow> bool" where
  "ieee_below (Finite a) t = (a < t)"
| "ieee_below NonFinite t = False"

text \<open>
  Eigen's routines that the iterations call are parameters of the model:
  \<^item> \<open>Random n\<close>: \<^verbatim>\<open>Eigen::VectorXcd::Random(n)\<close>;
  \<^item> \<open>lu_solve_mat A B\<close> and \<open>lu_solve_vec A b\<close>: \<^verbatim>\<open>A.partialPivLu().solve(...)\<close>;
  \<^item> \<open>ComplexEigenSolver A\<close>: the eigenvalues and the columns of the eigenvectors of \<open>A\<close>.
\<close>

record EigenDense =
  Random :: "nat \<Rightarrow> complex list"
  lu_solve_mat :: "MatrixXcd \<Rightarrow> MatrixXcd \<Rightarrow> MatrixXcd"
  lu_solve_vec :: "MatrixXcd \<Rightarrow> complex list \<Rightarrow> complex list"
  ComplexEigenSolver :: "MatrixXcd \<Rightarrow> complex list \<times> (nat \<Rightarrow> complex list)"

text \<open>
  \<^verbatim>\<open>std::distance(mu.begin(), std::min_element(mu.begin(), mu.end(), ...))\<close> with the
  comparison of the moduli: the index of the first coefficient of smallest modulus, from the
  candidate \<open>best\<close> and the coefficients from index \<open>i\<close> on.
\<close>

fun min_element_from :: "complex list \<Rightarrow> nat \<Rightarrow> nat \<Rightarrow> nat" where
  "min_element_from mu best 0 = best"
| "min_element_from mu best (Suc k) =
     (let i = length mu - Suc k
      in min_element_from mu (if cmod (mu ! i) < cmod (mu ! best) then i else best) k)"

definition min_element :: "complex list \<Rightarrow> nat" where
  "min_element mu = min_element_from mu 0 (length mu - 1)"

subsection \<open>The eigenvalue iterations: \<^verbatim>\<open>MSLP\<close> and \<^verbatim>\<open>RII\<close>\<close>

text \<open>
  \<^verbatim>\<open>constexpr auto max_it = 100; constexpr auto tol = 1.0e-9;\<close> in both functions, and
  \<^verbatim>\<open>std::sqrt(std::numeric_limits<double>::epsilon())\<close>, which is \<open>2\<^sup>-\<^sup>2\<^sup>6\<close>.
\<close>

definition max_it :: nat where
  "max_it = 100"

definition tol :: real where
  "tol = 1 / 10 ^ 9"

definition sqrt_epsilon :: real where
  "sqrt_epsilon = 1 / 2 ^ 26"

text \<open>
  The function \<open>F\<close> stands for \<^verbatim>\<open>EvalFunction(lambda, T, dT, true, res)\<close>: every call in the two
  iterations asks for the Jacobian, so each call overwrites both \<open>T\<close> and \<open>dT\<close>; the model
  takes them as the result, or the error that stops the evaluation.

  The loop \<^verbatim>\<open>while (it < max_it)\<close> of \<^verbatim>\<open>MSLP\<close> on \<open>(it, lambda, x, res)\<close> and the log. Each pass
  writes its progress line with \<^verbatim>\<open>Mpi::Print\<close> and, when it goes on, the eigenvalues \<open>mu\<close> with
  the selected index to \<^verbatim>\<open>std::cout\<close>. The result is the state at the exit of the loop. An empty vector of eigenvalues (\<open>n = 0\<close>) makes \<^verbatim>\<open>mu(i)\<close> an access out of range.
\<close>

function MSLP_loop ::
  "EigenDense \<Rightarrow> (complex \<Rightarrow> ieee \<Rightarrow> rom_error + (MatrixXcd \<times> MatrixXcd)) \<Rightarrow>
     nat \<Rightarrow> complex \<Rightarrow> complex list \<Rightarrow> ieee \<Rightarrow> log_event list \<Rightarrow>
     rom_error + (complex \<times> complex list \<times> nat \<times> ieee \<times> log_event list)" where
  "MSLP_loop ed F it lambda x res lg =
     (if it < max_it
      then (case F lambda res of
              Inl e \<Rightarrow> Inl e
            | Inr (T, dT) \<Rightarrow>
                (let lg' = lg @ [PrintMSLPIteration it];
                     res' = residual T x
                 in if ieee_below res' tol then Inr (lambda, x, it, res', lg')
                    else (case ComplexEigenSolver ed (lu_solve_mat ed dT T) of
                            (mu, vecs) \<Rightarrow>
                              if mu = [] then Inl (AssertFailed ''mu(i)'')
                              else MSLP_loop ed F (it + 1) (lambda - mu ! min_element mu)
                                     (vecs (min_element mu)) res' (lg' @ [PrintMu (min_element mu)]))))
      else Inr (lambda, x, it, res, lg))"
  by pat_completeness auto
termination
  by (relation "measure (\<lambda>(ed, F, it, lambda, x, res, lg). max_it - it)") auto

declare MSLP_loop.simps [simp del]

text \<open>
  \<^verbatim>\<open>MSLP(n, EvalFunction, lambda, x)\<close>: the eigenvalue and eigenvector estimates left in the
  reference parameters, the iteration count and the log. After the loop the source has
  \<^verbatim>\<open>if (it == max_it) { // XX TODO WARNING... }\<close>: both branches do nothing.
\<close>

definition MSLP ::
  "EigenDense \<Rightarrow> nat \<Rightarrow> (complex \<Rightarrow> ieee \<Rightarrow> rom_error + (MatrixXcd \<times> MatrixXcd)) \<Rightarrow> complex \<Rightarrow>
     rom_error + (complex \<times> complex list \<times> nat \<times> log_event list)" where
  "MSLP ed n F lambda =
     (case normalize_vec (Random ed n) of
        Inl e \<Rightarrow> Inl e
      | Inr x0 \<Rightarrow>
          (case MSLP_loop ed F 0 lambda x0 (Finite 1) [] of
             Inl e \<Rightarrow> Inl e
           | Inr (lambda', x', it, res, lg) \<Rightarrow>
               if it = max_it then Inr (lambda', x', it, lg) else Inr (lambda', x', it, lg)))"

text \<open>
  The inner loop of \<^verbatim>\<open>RII\<close> on \<open>(inner_it, lambda, T, dT)\<close>, for the matrix \<open>luT\<close> that \<open>lu\<close>
  holds factorized: the Rayleigh functional. \<^verbatim>\<open>mu = num / den\<close> divides by a complex zero
  when \<open>den = 0\<close>; the code goes on with a \<open>lambda\<close> that is not finite.
\<close>

function RII_inner ::
  "EigenDense \<Rightarrow> (complex \<Rightarrow> ieee \<Rightarrow> rom_error + (MatrixXcd \<times> MatrixXcd)) \<Rightarrow> MatrixXcd \<Rightarrow> complex list \<Rightarrow> ieee \<Rightarrow>
     nat \<Rightarrow> complex \<Rightarrow> MatrixXcd \<times> MatrixXcd \<Rightarrow> log_event list \<Rightarrow>
     rom_error + (nat \<times> complex \<times> log_event list)" where
  "RII_inner ed F luT x res inner_it lambda TdT lg =
     (if inner_it < max_it
      then (case (if inner_it > 0 then F lambda res else Inr TdT) of
              Inl e \<Rightarrow> Inl e
            | Inr (T, dT) \<Rightarrow>
                (let num = adjoint_dot x (lu_solve_vec ed luT (mat_vec T x));
                     den = adjoint_dot x (lu_solve_vec ed luT (mat_vec dT x));
                     lg' = lg @ [PrintRIIInner inner_it]
                 in if den = 0 then Inl (NotFinite ''mu = num / den'')
                    else if cmod (num / den) < sqrt_epsilon * cmod lambda
                    then Inr (inner_it, lambda, lg')
                    else RII_inner ed F luT x res (inner_it + 1) (lambda - num / den) (T, dT) lg'))
      else Inr (inner_it, lambda, lg))"
  by pat_completeness auto
termination
  by (relation "measure (\<lambda>(ed, F, luT, x, res, inner_it, lambda, TdT, lg). max_it - inner_it)") auto

declare RII_inner.simps [simp del]

text \<open>
  The outer loop of \<^verbatim>\<open>RII\<close> on \<open>(it, lambda, x, res, T, dT, luT)\<close> and the log. After the inner
  loop the source has \<^verbatim>\<open>if (inner_it == max_it) { // XX TODO WARNING... }\<close>, which does nothing.
\<close>

function RII_loop ::
  "EigenDense \<Rightarrow> (complex \<Rightarrow> ieee \<Rightarrow> rom_error + (MatrixXcd \<times> MatrixXcd)) \<Rightarrow>
     nat \<Rightarrow> complex \<Rightarrow> complex list \<Rightarrow> ieee \<Rightarrow> MatrixXcd \<times> MatrixXcd \<Rightarrow> MatrixXcd \<Rightarrow> log_event list \<Rightarrow>
     rom_error + (complex \<times> complex list \<times> nat \<times> ieee \<times> log_event list)" where
  "RII_loop ed F it lambda x res TdT luT lg =
     (if it < max_it
      then (case RII_inner ed F luT x res 0 lambda TdT lg of
              Inl e \<Rightarrow> Inl e
            | Inr (inner_it, lambda1, lg1) \<Rightarrow>
                (case F lambda1 res of
                   Inl e \<Rightarrow> Inl e
                 | Inr (T, dT) \<Rightarrow>
                     (let lg2 = lg1 @ [PrintRIIIteration it inner_it];
                          res' = residual T x
                      in if ieee_below res' tol then Inr (lambda1, x, it, res', lg2)
                         else (case normalize_vec
                                      (map (\<lambda>(xi, di). xi - di) (zip x (lu_solve_vec ed T (mat_vec T x)))) of
                                 Inl e \<Rightarrow> Inl e
                               | Inr x' \<Rightarrow> RII_loop ed F (it + 1) lambda1 x' res' (T, dT) T lg2))))
      else Inr (lambda, x, it, res, lg))"
  by pat_completeness auto
termination
  by (relation "measure (\<lambda>(ed, F, it, lambda, x, res, TdT, luT, lg). max_it - it)") auto

declare RII_loop.simps [simp del]

text \<open>
  \<^verbatim>\<open>RII(n, EvalFunction, lambda, x)\<close>. As in \<^verbatim>\<open>MSLP\<close>, the source ends with
  \<^verbatim>\<open>if (it == max_it) { // XX TODO WARNING... }\<close>.
\<close>

definition RII ::
  "EigenDense \<Rightarrow> nat \<Rightarrow> (complex \<Rightarrow> ieee \<Rightarrow> rom_error + (MatrixXcd \<times> MatrixXcd)) \<Rightarrow> complex \<Rightarrow>
     rom_error + (complex \<times> complex list \<times> nat \<times> log_event list)" where
  "RII ed n F lambda =
     (case F lambda (Finite 1) of
        Inl e \<Rightarrow> Inl e
      | Inr (T, dT) \<Rightarrow>
          (case normalize_vec (lu_solve_vec ed T (Random ed n)) of
             Inl e \<Rightarrow> Inl e
           | Inr x0 \<Rightarrow>
               (case RII_loop ed F 0 lambda x0 (Finite 1) (T, dT) T [] of
                  Inl e \<Rightarrow> Inl e
                | Inr (lambda', x', it, res, lg) \<Rightarrow>
                    if it = max_it then Inr (lambda', x', it, lg) else Inr (lambda', x', it, lg))))"

subsection \<open>Deflation: \<^verbatim>\<open>SolveNEP\<close>\<close>

definition deflation_tol :: real where
  "deflation_tol = 1 / 10 ^ 6"

definition mat_scale :: "complex \<Rightarrow> MatrixXcd \<Rightarrow> MatrixXcd" where
  "mat_scale c A = A\<lparr>coef := (\<lambda>i j. c * coef A i j)\<rparr>"

text \<open>
  \<^verbatim>\<open>XXt = X.col(i) * X.col(i).adjoint(); P = Identity(n, n); P -= ((l - lambda(i) - 1.0) / (l - lambda(i))) * XXt;\<close>
  and the factor \<^verbatim>\<open>dP\<close> of the Jacobian, for the stored pair \<open>(lambda_i, x_i)\<close>.
\<close>

definition P_factor :: "nat \<Rightarrow> complex \<Rightarrow> complex \<Rightarrow> complex list \<Rightarrow> MatrixXcd" where
  "P_factor n l lambda_i x_i =
     add_scaled (Identity n) (- ((l - lambda_i - 1) / (l - lambda_i))) (outer_adjoint x_i)"

definition dP_factor :: "complex \<Rightarrow> complex \<Rightarrow> complex list \<Rightarrow> MatrixXcd" where
  "dP_factor l lambda_i x_i =
     mat_scale ((l - lambda_i - 1) / (l - lambda_i)\<^sup>2 - 1 / (l - lambda_i)) (outer_adjoint x_i)"

text \<open>
  The inner loop over \<open>j \<noteq> i\<close> of the Jacobian: \<^verbatim>\<open>dP = dP * P\<close> for every other stored pair.
\<close>

definition dP_chain :: "nat \<Rightarrow> nat \<Rightarrow> complex list \<Rightarrow> complex list list \<Rightarrow> complex \<Rightarrow> nat \<Rightarrow> MatrixXcd" where
  "dP_chain n k lambda X l i =
     foldl (\<lambda>dP j. if j \<noteq> i then mat_mul dP (P_factor n l (lambda ! j) (X ! j)) else dP)
       (dP_factor l (lambda ! i) (X ! i)) [0..<k]"

text \<open>
  The closure \<^verbatim>\<open>EvalDeflated\<close> of pass \<open>k\<close> of \<^verbatim>\<open>SolveNEP\<close>, for the eigenvalues \<open>lambda\<close> and the
  columns \<open>X\<close> stored by the passes before (\<open>lambda ! i\<close> is \<^verbatim>\<open>lambda(i)\<close> and \<open>X ! i\<close> is
  \<^verbatim>\<open>X.col(i)\<close>, for \<open>i < k\<close>). The model takes \<^verbatim>\<open>jacobian = true\<close>, the value of every call in the
  source; \<open>EvalFunction l\<close> stands for \<^verbatim>\<open>EvalFunction(l, T, dT, true)\<close>. Where \<open>l\<close> equals a stored
  eigenvalue the code divides by a complex zero and goes on with matrices that are not
  finite.
\<close>

definition EvalDeflated ::
  "nat \<Rightarrow> nat \<Rightarrow> complex list \<Rightarrow> complex list list \<Rightarrow> (complex \<Rightarrow> rom_error + (MatrixXcd \<times> MatrixXcd)) \<Rightarrow>
     complex \<Rightarrow> ieee \<Rightarrow> rom_error + (MatrixXcd \<times> MatrixXcd)" where
  "EvalDeflated n k lambda X EvalFunction l res =
     (case EvalFunction l of
        Inl e \<Rightarrow> Inl e
      | Inr (T, dT) \<Rightarrow>
          if k = 0 \<or> ieee_below res deflation_tol then Inr (T, dT)
          else if list_ex (\<lambda>i. l = lambda ! i) [0..<k]
          then Inl (NotFinite ''(l - lambda(i) - 1.0) / (l - lambda(i))'')
          else (let Tp = foldl (\<lambda>Tp i. mat_mul Tp (P_factor n l (lambda ! i) (X ! i))) T [0..<k];
                    dTp = foldl (\<lambda>dTp i. mat_mul dTp (P_factor n l (lambda ! i) (X ! i))) dT [0..<k]
                in Inr (Tp, foldl (\<lambda>dTp i. add_scaled dTp 1 (mat_mul T (dP_chain n k lambda X l i)))
                              dTp [0..<k])))"

text \<open>
  The loop after the iteration (``transform the eigenvector back''): \<^verbatim>\<open>x = P * x\<close> for every
  stored pair, with the factor evaluated at the new eigenvalue \<^verbatim>\<open>lambda(k)\<close>.
\<close>

definition transform_back :: "nat \<Rightarrow> nat \<Rightarrow> complex list \<Rightarrow> complex list list \<Rightarrow> complex \<Rightarrow> complex list \<Rightarrow> complex list" where
  "transform_back n k lambda X lambda_k x =
     foldl (\<lambda>x i. mat_vec (P_factor n lambda_k (lambda ! i) (X ! i)) x) x [0..<k]"

text \<open>
  Pass \<open>k\<close> of the loop of \<^verbatim>\<open>SolveNEP\<close> on the eigenvalues and columns stored so far and the
  log: \<^verbatim>\<open>MSLP\<close> on the deflated evaluation from the initial guess \<open>sigma\<close>, the progress line,
  the transformation of the eigenvector, its normalization, and the new column.
\<close>

definition SolveNEP_pass ::
  "EigenDense \<Rightarrow> nat \<Rightarrow> complex \<Rightarrow> (complex \<Rightarrow> rom_error + (MatrixXcd \<times> MatrixXcd)) \<Rightarrow>
     complex list \<times> complex list list \<times> log_event list \<Rightarrow> nat \<Rightarrow>
     rom_error + (complex list \<times> complex list list \<times> log_event list)" where
  "SolveNEP_pass ed n sigma EvalFunction st k =
     (case st of (lambda, X, lg) \<Rightarrow>
        (case MSLP ed n (EvalDeflated n k lambda X EvalFunction) sigma of
           Inl e \<Rightarrow> Inl e
         | Inr (lambda_k, x, it, lg_k) \<Rightarrow>
             if list_ex (\<lambda>i. lambda_k = lambda ! i) [0..<k]
             then Inl (NotFinite ''(lambda(k) - lambda(i) - 1.0) / (lambda(k) - lambda(i))'')
             else (case normalize_vec (transform_back n k lambda X lambda_k x) of
                     Inl e \<Rightarrow> Inl e
                   | Inr x_k \<Rightarrow>
                       Inr (lambda @ [lambda_k], X @ [x_k], lg @ lg_k @ [PrintEigenvalue (k + 1)]))))"

text \<open>
  \<^verbatim>\<open>SolveNEP(n, num_eig, sigma, EvalFunction, lambda, X)\<close>: the passes \<open>k = 0, \<dots>, num_eig - 1\<close>.
\<close>

definition SolveNEP ::
  "EigenDense \<Rightarrow> nat \<Rightarrow> nat \<Rightarrow> complex \<Rightarrow> (complex \<Rightarrow> rom_error + (MatrixXcd \<times> MatrixXcd)) \<Rightarrow>
     rom_error + (complex list \<times> complex list list \<times> log_event list)" where
  "SolveNEP ed n num_eig sigma EvalFunction =
     foldl (\<lambda>acc k. case acc of Inl e \<Rightarrow> Inl e | Inr st \<Rightarrow> SolveNEP_pass ed n sigma EvalFunction st k)
       (Inr ([], [], [])) [0..<num_eig]"


subsection \<open>The quantities of the specification\<close>

text \<open>
  The entry \<open>(i, j)\<close> of the Galerkin projection \<open>V\<^sup>H A V\<close> of a full-order operator, as the
  specification defines the reduced matrix: the inner product of basis vector \<open>i\<close> with the
  operator applied to basis vector \<open>j\<close>, an absent part of \<open>A\<close> contributing zero.
\<close>

definition VhAV :: "Vector list \<Rightarrow> ComplexOperator \<Rightarrow> nat \<Rightarrow> nat \<Rightarrow> complex" where
  "VhAV Vb A i j =
     Complex (case Real_op A of Some f \<Rightarrow> LocalDot (Vb ! i) (f (Vb ! j)) | None \<Rightarrow> 0)
             (case Imag_op A of Some f \<Rightarrow> LocalDot (Vb ! i) (f (Vb ! j)) | None \<Rightarrow> 0)"

text \<open>
  A symmetric full-order operator: each part that is present is symmetric for the inner
  product on the vectors of the operator's size.
\<close>

definition symmetric_part :: "nat \<Rightarrow> (Vector \<Rightarrow> Vector) option \<Rightarrow> bool" where
  "symmetric_part N p =
     (case p of
        None \<Rightarrow> True
      | Some f \<Rightarrow> (\<forall>x y. length x = N \<and> length y = N \<longrightarrow> LocalDot x (f y) = LocalDot y (f x)))"

definition symmetric_op :: "ComplexOperator \<Rightarrow> bool" where
  "symmetric_op A = (symmetric_part (Height A) (Real_op A) \<and> symmetric_part (Height A) (Imag_op A))"

text \<open>
  The linear combination \<open>u = \<Sum>\<^sub>j y\<^sub>j V[j]\<close> of the first \<open>n\<close> basis vectors, one column at a
  time, added to \<open>u\<close>: the real parts of the coefficients build the real part, the imaginary
  parts the imaginary part.
\<close>

definition expand_naive :: "Vector list \<Rightarrow> complex list \<Rightarrow> nat \<Rightarrow> ComplexVector \<Rightarrow> ComplexVector" where
  "expand_naive Vb y n u =
     foldl (\<lambda>u' j. \<lparr>Real_part = Vector_Add (Real_part u') (Re (y ! j)) (Vb ! j),
                     Imag_part = Vector_Add (Imag_part u') (Im (y ! j)) (Vb ! j)\<rparr>)
       u [0..<n]"



text \<open>
  The reduced system of the specification at \<open>omega\<close>:
  \<open>Ar(omega) = Kr + i omega Cr - omega\<^sup>2 Mr + [projected correction term]\<close> and
  \<open>RHSr(omega) = i omega RHS1r + [projected excitation]\<close>. The bracketed terms are the
  projections of the collaborator's \<open>A2(omega)\<close> and \<open>RHS2(omega)\<close> while the flag of the term
  holds, and zero otherwise; an absent \<open>Cr\<close> (no rows) and an absent \<open>RHS1\<close> (size zero)
  contribute nothing.
\<close>

definition Ar_spec :: "Externals \<Rightarrow> RomOperator \<Rightarrow> real \<Rightarrow> nat \<Rightarrow> nat \<Rightarrow> complex" where
  "Ar_spec ext s omega i j =
     coef (Kr s) i j
     + (if rows (Cr s) > 0 then \<i> * of_real omega * coef (Cr s) i j else 0)
     - of_real (omega * omega) * coef (Mr s) i j
     + (if has_A2 s
        then (case GetExtraSystemMatrix ext omega of
                Some A2 \<Rightarrow> VhAV (V_basis s) A2 i j
              | None \<Rightarrow> 0)
        else 0)"

definition RHSr_spec :: "Externals \<Rightarrow> RomOperator \<Rightarrow> real \<Rightarrow> nat \<Rightarrow> complex" where
  "RHSr_spec ext s omega i =
     (if Size (RHS1 s) \<noteq> 0 then \<i> * of_real omega * RHS1r s ! i else 0)
     + (if has_RHS2 s
        then Complex (LocalDot (V_basis s ! i) (Real_part (snd (GetExcitationVector2 ext omega))))
                     (LocalDot (V_basis s ! i) (Imag_part (snd (GetExcitationVector2 ext omega))))
        else 0)"

subsection \<open>A system with two degrees of freedom\<close>

text \<open>
  The concrete inputs of the examples below: \<open>K\<close> and \<open>M\<close> are the identity on vectors of size
  2, there is no damping and no parameter-dependent term, the excitation \<open>RHS1\<close> is the first
  unit vector, the full-order solve divides the right-hand side of \<open>(1 - omega\<^sup>2) u = r\<close>, the
  dense solver is exact on diagonal systems, and the decomposition returned for \<open>R\<close> is that
  of a diagonal matrix with decreasing positive diagonal.
\<close>

definition example_I :: ComplexOperator where
  "example_I = \<lparr>Real_op = Some (\<lambda>x. x), Imag_op = None, Height = 2\<rparr>"

definition diag_solve :: "MatrixXcd \<Rightarrow> complex list \<Rightarrow> complex list" where
  "diag_solve A b = map (\<lambda>i. b ! i / coef A i i) [0..<length b]"

definition example_ext :: Externals where
  "example_ext =
     \<lparr>GetStiffnessMatrix = Some example_I,
      GetDampingMatrix = None,
      GetMassMatrix = Some example_I,
      GetExcitationVector1 = (True, \<lparr>Real_part = [1, 0], Imag_part = [0, 0]\<rparr>),
      GetExtraSystemMatrix = (\<lambda>omega. None),
      GetExcitationVector2 = (\<lambda>omega. (False, \<lparr>Real_part = [0, 0], Imag_part = [0, 0]\<rparr>)),
      ksp_Mult = (\<lambda>omega A2 rv u. ComplexVector_scale rv (1 / of_real (1 - omega * omega))),
      partialPivLu_solve = diag_solve,
      JacobiSVD = (\<lambda>R. \<lparr>singularValues = map (\<lambda>i. cmod (coef R i i)) [0..<rows R],
                           matrixV_col = (\<lambda>m. map (\<lambda>i. if i = m then 1 else 0) [0..<rows R])\<rparr>),
      OrthogonalizeColumn_Q = (\<lambda>ty Qb w j. (w, replicate j 0))\<rparr>"

text \<open>The reduced solution that \<^verbatim>\<open>SolvePROM\<close> leaves in \<open>RHSr\<close>.\<close>

definition SolvePROM_reduced ::
  "Externals \<Rightarrow> real \<Rightarrow> ComplexVector \<Rightarrow> RomOperator \<Rightarrow> rom_error + complex list" where
  "SolvePROM_reduced ext omega u s =
     (case SolvePROM ext omega u s of Inl e \<Rightarrow> Inl e | Inr (s', u') \<Rightarrow> Inr (RHSr s'))"

text \<open>
  A dense solver that is exact on nonsingular diagonal systems: it returns the one solution
  \<open>b\<^sub>i / A\<^sub>i\<^sub>i\<close>.
\<close>

definition exact_on_diagonal :: "Externals \<Rightarrow> bool" where
  "exact_on_diagonal ext =
     (\<forall>A b. (\<forall>i<length b. \<forall>j<length b. i \<noteq> j \<longrightarrow> coef A i j = 0) \<and>
            (\<forall>i<length b. coef A i i \<noteq> 0) \<longrightarrow>
            partialPivLu_solve ext A b = map (\<lambda>i. b ! i / coef A i i) [0..<length b])"


subsection \<open>The reduced system of the concrete scenario\<close>

text \<open>
  The reduced system of dimension 4 of the specification's scenario: \<open>Kr = diag(1, 2, 3, 4)\<close>,
  \<open>Mr = I\<close>, no damping (\<open>Cr\<close> has no rows), both flags false, \<open>RHS1r = [1, 1, 1, 1]\<close> for a
  non-empty \<open>RHS1\<close>. The basis is the four unit vectors; the full-order operators play no part
  in \<^verbatim>\<open>SolvePROM\<close> while the flags are false.
\<close>

definition scenario_I4 :: ComplexOperator where
  "scenario_I4 = \<lparr>Real_op = Some (\<lambda>x. x), Imag_op = None, Height = 4\<rparr>"

definition scenario_rom :: RomOperator where
  "scenario_rom =
     \<lparr>K_op = scenario_I4, C_op = None, M_op = scenario_I4,
      RHS1 = \<lparr>Real_part = [1, 1, 1, 1], Imag_part = [0, 0, 0, 0]\<rparr>,
      has_A2 = False, has_RHS2 = False,
      r_work = \<lparr>Real_part = [0, 0, 0, 0], Imag_part = [0, 0, 0, 0]\<rparr>,
      V_basis = [[1, 0, 0, 0], [0, 1, 0, 0], [0, 0, 1, 0], [0, 0, 0, 1]], dim_V = 4,
      Q_basis = [], dim_Q = 0,
      orthog_type = MGS,
      Kr = \<lparr>rows = 4, cols = 4, coef = (\<lambda>i j. if i = j then of_nat (i + 1) else 0)\<rparr>,
      Cr = \<lparr>rows = 0, cols = 0, coef = (\<lambda>i j. 0)\<rparr>,
      Mr = \<lparr>rows = 4, cols = 4, coef = (\<lambda>i j. if i = j then 1 else 0)\<rparr>,
      Ar = \<lparr>rows = 4, cols = 4, coef = (\<lambda>i j. 0)\<rparr>,
      RHS1r = [1, 1, 1, 1], RHSr = [0, 0, 0, 0],
      R_mat = \<lparr>rows = 0, cols = 0, coef = (\<lambda>i j. 0)\<rparr>,
      z_samples = [], q_weights = [], S_samples = [], calls = [], messages = []\<rparr>"

subsection \<open>A scalar eigenvalue problem\<close>

text \<open>
  The scalar problem \<open>T(\<lambda>) = \<lambda>\<^sup>2\<close> with \<open>T'(\<lambda>) = 2 \<lambda>\<close> (\<open>n = 1\<close>), and Eigen's routines on
  matrices with one coefficient: the solves divide by the coefficient, the eigenvalue is the
  coefficient, with the eigenvector \<open>[1]\<close>.
\<close>

definition scalar_matrix :: "complex \<Rightarrow> MatrixXcd" where
  "scalar_matrix c = \<lparr>rows = 1, cols = 1, coef = (\<lambda>i j. c)\<rparr>"

definition square_T :: "complex \<Rightarrow> ieee \<Rightarrow> rom_error + (MatrixXcd \<times> MatrixXcd)" where
  "square_T l res = Inr (scalar_matrix (l\<^sup>2), scalar_matrix (2 * l))"

definition scalar_dense :: EigenDense where
  "scalar_dense =
     \<lparr>Random = (\<lambda>n. replicate n 1),
      lu_solve_mat = (\<lambda>A B. scalar_matrix (coef B 0 0 / coef A 0 0)),
      lu_solve_vec = (\<lambda>A b. map (\<lambda>bi. bi / coef A 0 0) b),
      ComplexEigenSolver = (\<lambda>A. ([coef A 0 0], \<lambda>i. [1]))\<rparr>"

definition MSLP_lines :: "nat \<Rightarrow> nat \<Rightarrow> log_event list" where
  "MSLP_lines a b = concat (map (\<lambda>it. [PrintMSLPIteration it, PrintMu 0]) [a..<b])"

subsection \<open>A diagonal eigenvalue problem\<close>




section \<open>Properties\<close>

subsection \<open>\<^verbatim>\<open>ComputeMRI\<close>\<close>

lemma mri_deflate_le: "fst (mri_deflate sigma m) \<le> m"
  by (induction m) (auto split: prod.splits)

lemma mri_deflate_spec:
  "mri_deflate sigma m = (m', ws) \<Longrightarrow>
     m' \<le> m \<and>
     (\<forall>i. m' < i \<and> i \<le> m \<longrightarrow> sigma ! i < ORTHOG_TOL * sigma ! 0) \<and>
     (m' = 0 \<or> \<not> sigma ! m' < ORTHOG_TOL * sigma ! 0) \<and>
     ws = map (\<lambda>i. WarningRankDeficient i (sigma ! i) (sigma ! 0)) (rev [Suc m'..<Suc m])"
proof (induction m arbitrary: m' ws)
  case 0
  then show ?case by simp
next
  case (Suc m)
  show ?case
  proof (cases "sigma ! Suc m < ORTHOG_TOL * sigma ! 0")
    case False
    with Suc.prems show ?thesis by simp
  next
    case True
    obtain m0 ws0 where r: "mri_deflate sigma m = (m0, ws0)"
      by (cases "mri_deflate sigma m")
    from Suc.prems True r have eq: "m' = m0" "ws = WarningRankDeficient (Suc m) (sigma ! Suc m) (sigma ! 0) # ws0"
      by simp_all
    from Suc.IH [OF r] have ih:
      "m0 \<le> m"
      "\<forall>i. m0 < i \<and> i \<le> m \<longrightarrow> sigma ! i < ORTHOG_TOL * sigma ! 0"
      "m0 = 0 \<or> \<not> sigma ! m0 < ORTHOG_TOL * sigma ! 0"
      "ws0 = map (\<lambda>i. WarningRankDeficient i (sigma ! i) (sigma ! 0)) (rev [Suc m0..<Suc m])"
      by simp_all
    have "\<forall>i. m0 < i \<and> i \<le> Suc m \<longrightarrow> sigma ! i < ORTHOG_TOL * sigma ! 0"
      using ih(2) True by (auto simp: le_Suc_eq)
    moreover have "[Suc m0..<Suc (Suc m)] = [Suc m0..<Suc m] @ [Suc m]"
      using ih(1) by simp
    ultimately show ?thesis
      using ih eq by simp
  qed
qed

text \<open>
  Claim C6. \<^verbatim>\<open>ComputeMRI\<close> returns the column \<open>m\<close> of \<^verbatim>\<open>matrixV\<close> of the full SVD of \<open>R\<close>,
  where \<open>m\<close> is found from the bottom: every index above \<open>m\<close> has a singular value below
  \<open>10\<^sup>-\<^sup>1\<^sup>2\<close> times the largest one and has produced one warning (in descending order of the
  index), and \<open>m\<close> itself is either the top index 0 or the first index from the bottom whose
  singular value is not below that bound. Without a deficient trailing value \<open>m\<close> is the last
  index, that of the smallest singular value (Eigen returns them in decreasing order).
\<close>

theorem ComputeMRI_selects:
  assumes "rows R > 0" and "cols R = rows R"
  shows "\<exists>m. ComputeMRI svd R =
             Inr (matrixV_col (svd R) m,
                  map (\<lambda>i. WarningRankDeficient i (singularValues (svd R) ! i) (singularValues (svd R) ! 0))
                      (rev [Suc m..<rows R])) \<and>
           m < rows R \<and>
           (\<forall>i. m < i \<and> i < rows R \<longrightarrow>
                singularValues (svd R) ! i < ORTHOG_TOL * singularValues (svd R) ! 0) \<and>
           (m = 0 \<or> \<not> singularValues (svd R) ! m < ORTHOG_TOL * singularValues (svd R) ! 0) \<and>
           (\<not> singularValues (svd R) ! (rows R - 1) < ORTHOG_TOL * singularValues (svd R) ! 0
              \<longrightarrow> m = rows R - 1)"
proof -
  define sigma where "sigma = singularValues (svd R)"
  obtain m ws where r: "mri_deflate sigma (rows R - 1) = (m, ws)"
    by (cases "mri_deflate sigma (rows R - 1)")
  from mri_deflate_spec [OF r] have p:
    "m \<le> rows R - 1"
    "\<forall>i. m < i \<and> i \<le> rows R - 1 \<longrightarrow> sigma ! i < ORTHOG_TOL * sigma ! 0"
    "m = 0 \<or> \<not> sigma ! m < ORTHOG_TOL * sigma ! 0"
    "ws = map (\<lambda>i. WarningRankDeficient i (sigma ! i) (sigma ! 0)) (rev [Suc m..<Suc (rows R - 1)])"
    by simp_all
  have S: "Suc (rows R - 1) = rows R" using assms(1) by simp
  have c: "ComputeMRI svd R = Inr (matrixV_col (svd R) m, ws)"
    using assms r by (simp add: ComputeMRI_def Let_def sigma_def)
  have last: "\<not> sigma ! (rows R - 1) < ORTHOG_TOL * sigma ! 0 \<longrightarrow> m = rows R - 1"
    using p(1) p(2) by (metis le_neq_implies_less order_refl)
  show ?thesis
    apply (rule exI [of _ m])
    using c p last assms(1) unfolding S sigma_def by auto
qed

theorem ComputeMRI_selects_witness:
  "rows \<lparr>rows = 2, cols = 2, coef = (\<lambda>i j. 0)\<rparr> > 0 \<and>
   ComputeMRI (\<lambda>R. \<lparr>singularValues = [1, 1 / 10 ^ 13], matrixV_col = (\<lambda>m. [of_nat m, 1])\<rparr>)
      \<lparr>rows = 2, cols = 2, coef = (\<lambda>i j. 0)\<rparr>
    = Inr ([0, 1], [WarningRankDeficient 1 (1 / 10 ^ 13) 1])"
proof -
  let ?R = "\<lparr>rows = 2, cols = 2, coef = (\<lambda>i j. 0)\<rparr>"
  let ?svd = "\<lambda>R :: MatrixXcd. \<lparr>singularValues = [1, 1 / 10 ^ 13], matrixV_col = (\<lambda>m. [of_nat m, 1])\<rparr>"
  have h1: "rows ?R > 0" and h2: "cols ?R = rows ?R" by simp_all
  from ComputeMRI_selects [OF h1 h2, of ?svd] obtain m where
    c: "ComputeMRI ?svd ?R =
          Inr ([of_nat m, 1], map (\<lambda>i. WarningRankDeficient i ([1, 1 / 10 ^ 13] ! i) 1) (rev [Suc m..<2]))"
    and lt: "m < 2"
    and stop: "m = 0 \<or> \<not> [1, 1 / 10 ^ 13] ! m < ORTHOG_TOL * (1::real)"
    by auto
  have "m = 0"
  proof (rule ccontr)
    assume "m \<noteq> 0"
    with lt have "m = 1" by simp
    with stop show False by (simp add: ORTHOG_TOL_def)
  qed
  moreover have "[Suc 0..<2] = [1]" by (simp add: upt_rec)
  ultimately show ?thesis using c by simp
qed


subsection \<open>\<^verbatim>\<open>FindMaxError\<close>\<close>

lemma FindMaxError_step_inv:
  assumes "FindMaxError_inv q z st"
  shows "FindMaxError_inv q z (FindMaxError_step q z start delta st step)"
proof (cases "Q_abs q z (start + real step * delta)")
  case (Finite a)
  then have "start + real step * delta \<notin> set (map snd (zip q z))"
    by (auto simp: Q_abs_def split: if_splits)
  with Finite assms show ?thesis
    by (auto simp: FindMaxError_step_def FindMaxError_inv_def Let_def split: ieee.splits)
next
  case NonFinite
  with assms show ?thesis
    by (simp add: FindMaxError_step_def Let_def)
qed

lemma FindMaxError_loop_inv:
  "FindMaxError_inv q z st \<Longrightarrow>
   FindMaxError_inv q z (foldl (FindMaxError_step q z start delta) st steps)"
  by (induction steps arbitrary: st) (simp_all add: FindMaxError_step_inv)

text \<open>
  Claim C7. For barycentric weights \<open>q\<close> and sampled parameter values \<open>z\<close> of the same size
  (after \<open>k\<close> calls of \<^verbatim>\<open>UpdatePROM\<close> both have \<open>k\<close> entries) and every scanned grid, a value
  that \<^verbatim>\<open>FindMaxError\<close> returns is none of the sampled values: at a sampled value the
  surrogate is not finite and the comparison \<^verbatim>\<open>Q < Q_star\<close> fails.
\<close>

theorem FindMaxError_never_resamples:
  assumes "length q = length z"
    and "FindMaxError q z start delta num_steps = Inr w"
  shows "w \<notin> set z"
proof -
  define start' where "start' = (if delta < 0 then start + (of_int num_steps - 1) * delta else start)"
  define delta' where "delta' = (if delta < 0 then - delta else delta)"
  define st where "st = foldl (FindMaxError_step q z start' delta') (0, NonFinite) [0..<nat num_steps]"
  have inv: "FindMaxError_inv q z st"
    unfolding st_def by (rule FindMaxError_loop_inv) (simp add: FindMaxError_inv_def)
  from assms(2) have w: "w = fst st" "fst st > 0"
    by (auto simp: FindMaxError_def Let_def st_def start'_def delta'_def split: if_splits)
  from inv w(2) have "fst st \<notin> set (map snd (zip q z))"
    by (auto simp: FindMaxError_inv_def split: ieee.splits)
  moreover have "map snd (zip q z) = z"
    using assms(1) by simp
  ultimately show ?thesis using w(1) by simp
qed

theorem FindMaxError_never_resamples_witness:
  "length [1 :: complex] = length [1 :: real] \<and>
   FindMaxError [1] [1] 1 1 2 = Inr 2 \<and> (2 :: real) \<notin> set [1]"
proof -
  have l: "length [1 :: complex] = length [1 :: real]" by simp
  have "[0..<nat 2] = [0, 1]" by (simp add: upt_rec)
  then have r: "FindMaxError [1] [1] 1 1 2 = Inr 2"
    by (simp add: FindMaxError_def FindMaxError_step_def Q_abs_def Let_def)
  from FindMaxError_never_resamples [OF l r] l r show ?thesis by simp
qed

subsection \<open>The flags \<open>has_RHS2\<close> and \<open>has_A2\<close>\<close>








lemma SolvePROM_Ar_shape:
  assumes "SolvePROM_Ar ext omega s = Inr s'"
  shows "\<exists>B rv. s' = s\<lparr>Ar := B, r_work := rv,
                      calls := (if has_A2 s then calls s @ [CallGetExtraSystemMatrix omega] else calls s)\<rparr>"
proof (cases "has_A2 s")
  case False
  with assms have "s' = s\<lparr>Ar := assemble_Ar s omega (setZero (Ar s))\<rparr>"
    by (simp add: SolvePROM_Ar_def)
  with False show ?thesis
    by (intro exI [of _ "assemble_Ar s omega (setZero (Ar s))"] exI [of _ "r_work s"]) simp
next
  case True
  show ?thesis
  proof (cases "GetExtraSystemMatrix ext omega")
    case None
    with assms True show ?thesis by (simp add: SolvePROM_Ar_def)
  next
    case (Some A2)
    show ?thesis
    proof (cases "ProjectMatInternal (V_basis s) A2 (Ar s) (r_work s) 0")
      case (Inl e)
      with assms True Some show ?thesis by (simp add: SolvePROM_Ar_def)
    next
      case (Inr p)
      obtain B0 rv where p: "p = (B0, rv)" by (cases p)
      from assms True Some Inr p
      have "s' = s\<lparr>Ar := assemble_Ar s omega B0, r_work := rv,
                    calls := calls s @ [CallGetExtraSystemMatrix omega]\<rparr>"
        by (simp add: SolvePROM_Ar_def)
      with True show ?thesis
        by (intro exI [of _ "assemble_Ar s omega B0"] exI [of _ rv]) simp
    qed
  qed
qed

lemma SolvePROM_Ar_keeps:
  assumes "SolvePROM_Ar ext omega s = Inr s'"
  shows "has_RHS2 s' = has_RHS2 s" and "RHS1 s' = RHS1 s" and "RHS1r s' = RHS1r s"
    and "RHSr s' = RHSr s" and "V_basis s' = V_basis s" and "dim_V s' = dim_V s"
    and "calls s' = (if has_A2 s then calls s @ [CallGetExtraSystemMatrix omega] else calls s)"
proof -
  from SolvePROM_Ar_shape [OF assms] obtain B rv where
    s': "s' = s\<lparr>Ar := B, r_work := rv,
                 calls := (if has_A2 s then calls s @ [CallGetExtraSystemMatrix omega] else calls s)\<rparr>"
    by blast
  show "has_RHS2 s' = has_RHS2 s" and "RHS1 s' = RHS1 s" and "RHS1r s' = RHS1r s"
    and "RHSr s' = RHSr s" and "V_basis s' = V_basis s" and "dim_V s' = dim_V s"
    and "calls s' = (if has_A2 s then calls s @ [CallGetExtraSystemMatrix omega] else calls s)"
    unfolding s' by simp_all
qed


lemma SolvePROM_stages:
  assumes "SolvePROM ext omega u s = Inr (s', u')"
  obtains s1 s2 where "SolvePROM_Ar ext omega s = Inr s1"
    and "SolvePROM_RHSr ext omega s1 = Inr s2"
    and "s' = s2\<lparr>RHSr := partialPivLu_solve ext (Ar s2) (RHSr s2)\<rparr>"
    and "u' = SolvePROM_expand (V_basis s2) (partialPivLu_solve ext (Ar s2) (RHSr s2)) (dim_V s2) 0
               \<lparr>Real_part = set_zero (Real_part u), Imag_part = set_zero (Imag_part u)\<rparr>"
proof (cases "SolvePROM_Ar ext omega s")
  case (Inl e)
  with assms show ?thesis by (simp add: SolvePROM_def)
next
  case a: (Inr s1)
  show ?thesis
  proof (cases "SolvePROM_RHSr ext omega s1")
    case (Inl e)
    with assms a show ?thesis by (simp add: SolvePROM_def)
  next
    case (Inr s2)
    with assms a have "s' = s2\<lparr>RHSr := partialPivLu_solve ext (Ar s2) (RHSr s2)\<rparr>"
      and "u' = SolvePROM_expand (V_basis s2) (partialPivLu_solve ext (Ar s2) (RHSr s2)) (dim_V s2) 0
               \<lparr>Real_part = set_zero (Real_part u), Imag_part = set_zero (Imag_part u)\<rparr>"
      by (simp_all add: SolvePROM_def Let_def)
    with a Inr show ?thesis by (rule that)
  qed
qed











subsection \<open>Galerkin projection: \<^verbatim>\<open>ProjectMatInternal\<close>\<close>

lemma coef_set_coef:
  "coef (set_coef B i j v) i' j' = (if i' = i \<and> j' = j then v else coef B i' j')"
  by (simp add: set_coef_def)

lemma dims_set_coef: "rows (set_coef B i j v) = rows B" "cols (set_coef B i j v) = cols B"
  by (simp_all add: set_coef_def)

lemma fill_column_coef:
  "coef (foldl (\<lambda>B i. set_coef B i j (e i)) B0 rs) i' j' =
     (if j' = j \<and> i' \<in> set rs then e i' else coef B0 i' j')"
  by (induction rs arbitrary: B0) (auto simp: coef_set_coef)

lemma fill_column_dims:
  "rows (foldl (\<lambda>B i. set_coef B i j (e i)) B0 rs) = rows B0"
  "cols (foldl (\<lambda>B i. set_coef B i j (e i)) B0 rs) = cols B0"
  by (induction rs arbitrary: B0) (auto simp: dims_set_coef)

lemma ProjectMat_entry_VhAV:
  "ProjectMat_entry Vb A
     (case Imag_op A of
        Some f \<Rightarrow> (case Real_op A of Some g \<Rightarrow> rv\<lparr>Real_part := g (Vb ! j)\<rparr> | None \<Rightarrow> rv)\<lparr>Imag_part := f (Vb ! j)\<rparr>
      | None \<Rightarrow> (case Real_op A of Some g \<Rightarrow> rv\<lparr>Real_part := g (Vb ! j)\<rparr> | None \<Rightarrow> rv)) i =
   VhAV Vb A i j"
  by (simp add: ProjectMat_entry_def VhAV_def HasReal_def HasImag_def split: option.splits)

lemma ProjectMat_column_coef:
  "coef (fst (ProjectMat_column Vb A n (B, rv) j)) i' j' =
     (if j' = j \<and> i' < n then VhAV Vb A i' j else coef B i' j')"
  by (simp add: ProjectMat_column_def Let_def fill_column_coef ProjectMat_entry_VhAV)

lemma ProjectMat_column_dims:
  "rows (fst (ProjectMat_column Vb A n (B, rv) j)) = rows B"
  "cols (fst (ProjectMat_column Vb A n (B, rv) j)) = cols B"
  by (simp_all add: ProjectMat_column_def Let_def fill_column_dims)

lemma ProjectMat_columns_coef:
  "coef (fst (foldl (ProjectMat_column Vb A n) (B, rv) js)) i' j' =
     (if j' \<in> set js \<and> i' < n then VhAV Vb A i' j' else coef B i' j')"
proof (induction js arbitrary: B rv)
  case Nil
  show ?case by simp
next
  case (Cons j js)
  obtain B1 rv1 where st: "ProjectMat_column Vb A n (B, rv) j = (B1, rv1)"
    by (cases "ProjectMat_column Vb A n (B, rv) j")
  have "coef B1 i' j' = (if j' = j \<and> i' < n then VhAV Vb A i' j else coef B i' j')"
    using ProjectMat_column_coef [of Vb A n B rv j i' j'] st by simp
  with Cons.IH [of B1 rv1] st show ?case by auto
qed

lemma ProjectMat_columns_dims:
  "rows (fst (foldl (ProjectMat_column Vb A n) (B, rv) js)) = rows B \<and>
   cols (fst (foldl (ProjectMat_column Vb A n) (B, rv) js)) = cols B"
proof (induction js arbitrary: B rv)
  case Nil
  show ?case by simp
next
  case (Cons j js)
  obtain B1 rv1 where st: "ProjectMat_column Vb A n (B, rv) j = (B1, rv1)"
    by (cases "ProjectMat_column Vb A n (B, rv) j")
  have "rows B1 = rows B \<and> cols B1 = cols B"
    using ProjectMat_column_dims [of Vb A n B rv j] st by simp
  with Cons.IH [of B1 rv1] st show ?case by simp
qed

lemma lower_inner_coef:
  assumes "j \<notin> set rs"
  shows "coef (foldl (\<lambda>B' i. set_coef B' i j (coef B' j i)) B rs) i' j' =
           (if j' = j \<and> i' \<in> set rs then coef B j i' else coef B i' j')"
  using assms by (induction rs arbitrary: B) (auto simp: coef_set_coef)

lemma lower_inner_dims:
  "rows (foldl (\<lambda>B' i. set_coef B' i j (coef B' j i)) B rs) = rows B \<and>
   cols (foldl (\<lambda>B' i. set_coef B' i j (coef B' j i)) B rs) = cols B"
  by (induction rs arbitrary: B) (auto simp: dims_set_coef)

lemma lower_outer_coef:
  assumes "set cs \<inter> set rs = {}"
  shows "coef (foldl (\<lambda>B j. foldl (\<lambda>B' i. set_coef B' i j (coef B' j i)) B rs) B0 cs) i' j' =
           (if j' \<in> set cs \<and> i' \<in> set rs then coef B0 j' i' else coef B0 i' j')"
  using assms
proof (induction cs arbitrary: B0)
  case Nil
  show ?case by simp
next
  case (Cons c cs)
  from Cons.prems have c: "c \<notin> set rs" and d: "set cs \<inter> set rs = {}" by auto
  show ?case
    using Cons.IH [OF d] c d by (auto simp: lower_inner_coef)
qed

lemma lower_outer_dims:
  "rows (foldl (\<lambda>B j. foldl (\<lambda>B' i. set_coef B' i j (coef B' j i)) B rs) B0 cs) = rows B0 \<and>
   cols (foldl (\<lambda>B j. foldl (\<lambda>B' i. set_coef B' i j (coef B' j i)) B rs) B0 cs) = cols B0"
  by (induction cs arbitrary: B0) (simp_all add: lower_inner_dims)

lemma ProjectMat_lower_coef:
  "coef (ProjectMat_lower n0 n B) i j =
     (if j < n0 \<and> n0 \<le> i \<and> i < n then coef B j i else coef B i j)"
proof -
  have "set [0..<n0] \<inter> set [n0..<n] = {}" by auto
  from lower_outer_coef [OF this, of B i j] show ?thesis
    by (simp add: ProjectMat_lower_def)
qed

lemma ProjectMat_lower_dims:
  "rows (ProjectMat_lower n0 n B) = rows B" "cols (ProjectMat_lower n0 n B) = cols B"
  by (simp_all add: ProjectMat_lower_def lower_outer_dims)

lemma ProjectMatInternal_result:
  assumes "n0 < rows B" and "HasReal A \<or> HasImag A"
  shows "\<exists>B' rv'. ProjectMatInternal Vb A B rv n0 = Inr (B', rv') \<and>
           rows B' = rows B \<and> cols B' = cols B \<and>
           (\<forall>i j. coef B' i j =
              (if j < n0 \<and> n0 \<le> i \<and> i < rows B then VhAV Vb A j i
               else if n0 \<le> j \<and> j < rows B \<and> i < rows B then VhAV Vb A i j
               else coef B i j))"
proof -
  obtain B1 rv1 where st: "foldl (ProjectMat_column Vb A (rows B)) (B, rv) [n0..<rows B] = (B1, rv1)"
    by (cases "foldl (ProjectMat_column Vb A (rows B)) (B, rv) [n0..<rows B]")
  have c1: "coef B1 i j = (if n0 \<le> j \<and> j < rows B \<and> i < rows B then VhAV Vb A i j else coef B i j)" for i j
    using ProjectMat_columns_coef [of Vb A "rows B" B rv "[n0..<rows B]" i j] st by auto
  have d1: "rows B1 = rows B \<and> cols B1 = cols B"
    using ProjectMat_columns_dims [of Vb A "rows B" B rv "[n0..<rows B]"] st by simp
  have r: "ProjectMatInternal Vb A B rv n0 = Inr (ProjectMat_lower n0 (rows B) B1, rv1)"
    using assms st by (simp add: ProjectMatInternal_def Let_def)
  show ?thesis
    apply (intro exI [of _ "ProjectMat_lower n0 (rows B) B1"] exI [of _ rv1])
    using r d1 by (auto simp: ProjectMat_lower_coef ProjectMat_lower_dims c1)
qed

lemma LocalDot_commute: "LocalDot x y = LocalDot y x"
proof -
  have "map (\<lambda>(xi, yi). xi * yi) (zip x y) = map (\<lambda>(yi, xi). yi * xi) (zip y x)"
    by (induction x arbitrary: y) (auto simp: zip_Cons1 mult.commute split: list.splits)
  then show ?thesis by (simp add: LocalDot_def)
qed

lemma VhAV_symmetric:
  assumes "symmetric_op A" and "length (Vb ! i) = Height A" and "length (Vb ! j) = Height A"
  shows "VhAV Vb A i j = VhAV Vb A j i"
  using assms
  by (auto simp: VhAV_def symmetric_op_def symmetric_part_def split: option.splits)

text \<open>
  Claim C4. For a symmetric operator \<open>A\<close> with at least one part, a basis of \<open>n\<close> full-order
  vectors and \<open>n0 < n\<close>: the incremental projection from \<open>n0\<close>, started on a matrix whose
  leading \<open>n0 \<times> n0\<close> block holds the projected values (its other coefficients are arbitrary),
  and the full recomputation from 0, started on any matrix, both return a matrix, the two
  agree on all \<open>n \<times> n\<close> coefficients, and each coefficient is the Galerkin projection
  \<open>V[i] \<cdot> A V[j]\<close>; in particular the lower-left block copied from the transpose is correct.
  In exact arithmetic the agreement is an equality.
\<close>

theorem ProjectMatInternal_incremental:
  assumes "symmetric_op A"
    and "HasReal A \<or> HasImag A"
    and "\<forall>i<n. length (Vb ! i) = Height A"
    and "n0 < n"
    and "rows B0 = n" and "rows B = n"
    and "\<forall>i<n0. \<forall>j<n0. coef B0 i j = VhAV Vb A i j"
  shows "\<exists>C0 rv0 C rv1.
           ProjectMatInternal Vb A B0 r0 n0 = Inr (C0, rv0) \<and>
           ProjectMatInternal Vb A B r1 0 = Inr (C, rv1) \<and>
           rows C0 = n \<and> rows C = n \<and>
           (\<forall>i<n. \<forall>j<n. coef C0 i j = coef C i j \<and> coef C i j = VhAV Vb A i j)"
proof -
  from assms(4,5) have "n0 < rows B0" by simp
  from ProjectMatInternal_result [OF this assms(2), where Vb = Vb and rv = r0] obtain C0 rv0 where
    p0: "ProjectMatInternal Vb A B0 r0 n0 = Inr (C0, rv0)" and d0: "rows C0 = rows B0"
    and c0: "\<And>i j. coef C0 i j =
              (if j < n0 \<and> n0 \<le> i \<and> i < rows B0 then VhAV Vb A j i
               else if n0 \<le> j \<and> j < rows B0 \<and> i < rows B0 then VhAV Vb A i j
               else coef B0 i j)"
    by blast
  from assms(4,6) have "0 < rows B" by simp
  from ProjectMatInternal_result [OF this assms(2), where Vb = Vb and rv = r1] obtain C rv1 where
    p1: "ProjectMatInternal Vb A B r1 0 = Inr (C, rv1)" and d1: "rows C = rows B"
    and c1: "\<And>i j. coef C i j =
              (if j < 0 \<and> 0 \<le> i \<and> i < rows B then VhAV Vb A j i
               else if 0 \<le> j \<and> j < rows B \<and> i < rows B then VhAV Vb A i j
               else coef B i j)"
    by blast
  have e: "coef C0 i j = coef C i j \<and> coef C i j = VhAV Vb A i j" if "i < n" and "j < n" for i j
  proof -
    have s: "VhAV Vb A j i = VhAV Vb A i j"
      using assms(1,3) that by (simp add: VhAV_symmetric)
    have f: "coef C i j = VhAV Vb A i j"
      using c1 [of i j] that assms(6) by simp
    have "coef C0 i j = VhAV Vb A i j"
    proof (cases "j < n0")
      case True
      show ?thesis
      proof (cases "i < n0")
        case True
        with \<open>j < n0\<close> c0 [of i j] assms(7) show ?thesis by simp
      next
        case False
        with \<open>j < n0\<close> c0 [of i j] that assms(5) s show ?thesis by simp
      qed
    next
      case False
      with c0 [of i j] that assms(5) show ?thesis by simp
    qed
    with f show ?thesis by simp
  qed
  show ?thesis
    apply (rule exI [of _ C0], rule exI [of _ rv0], rule exI [of _ C], rule exI [of _ rv1])
    using p0 p1 d0 d1 assms(5,6) e by simp
qed

lemma example_I_symmetric: "symmetric_op example_I"
  by (simp add: symmetric_op_def symmetric_part_def example_I_def LocalDot_commute)

theorem ProjectMatInternal_incremental_witness:
  "symmetric_op example_I \<and> (1::nat) < 2 \<and>
   (\<exists>C0 rv0 C rv1.
      ProjectMatInternal [[1, 0], [0, 1]] example_I
        \<lparr>rows = 2, cols = 2, coef = (\<lambda>i j. if i = 0 \<and> j = 0 then 1 else 7)\<rparr>
        \<lparr>Real_part = [0, 0], Imag_part = [0, 0]\<rparr> 1 = Inr (C0, rv0) \<and>
      ProjectMatInternal [[1, 0], [0, 1]] example_I
        \<lparr>rows = 2, cols = 2, coef = (\<lambda>i j. 5)\<rparr>
        \<lparr>Real_part = [0, 0], Imag_part = [0, 0]\<rparr> 0 = Inr (C, rv1) \<and>
      coef C0 0 0 = 1 \<and> coef C0 0 1 = 0 \<and> coef C0 1 0 = 0 \<and> coef C0 1 1 = 1 \<and>
      coef C 0 0 = 1 \<and> coef C 0 1 = 0 \<and> coef C 1 0 = 0 \<and> coef C 1 1 = 1)"
proof -
  let ?V = "[[1, 0], [0, 1 :: real]]"
  let ?Binc = "\<lparr>rows = 2, cols = 2, coef = (\<lambda>i j. if i = 0 \<and> j = 0 then 1 else 7)\<rparr>"
  let ?Bfull = "\<lparr>rows = 2, cols = 2, coef = (\<lambda>i j. 5)\<rparr>"
  let ?r = "\<lparr>Real_part = [0, 0], Imag_part = [0, 0]\<rparr>"
  have v: "VhAV ?V example_I 0 0 = 1" "VhAV ?V example_I 0 1 = 0"
    "VhAV ?V example_I 1 0 = 0" "VhAV ?V example_I 1 1 = 1"
    by (simp_all add: VhAV_def example_I_def LocalDot_def complex_eq_iff)
  have h2: "HasReal example_I \<or> HasImag example_I"
    by (simp add: HasReal_def example_I_def)
  have h3: "\<forall>i<Suc (Suc 0). length (?V ! i) = Height example_I"
    by (simp add: example_I_def less_Suc_eq)
  have h7: "\<forall>i<Suc 0. \<forall>j<Suc 0. coef ?Binc i j = VhAV ?V example_I i j"
    using v by simp
  from ProjectMatInternal_incremental [OF example_I_symmetric h2 h3 _ _ _ h7, where B = ?Bfull and ?r0.0 = ?r and ?r1.0 = ?r]
  obtain C0 rv0 C rv1 where
    "ProjectMatInternal ?V example_I ?Binc ?r 1 = Inr (C0, rv0)"
    "ProjectMatInternal ?V example_I ?Bfull ?r 0 = Inr (C, rv1)"
    "\<forall>i<Suc (Suc 0). \<forall>j<Suc (Suc 0). coef C0 i j = coef C i j \<and> coef C i j = VhAV ?V example_I i j"
    by (auto simp: numeral_2_eq_2)
  with v example_I_symmetric show ?thesis
    apply (intro conjI)
      apply simp
     apply simp
    apply (rule exI [of _ C0], rule exI [of _ rv0], rule exI [of _ C], rule exI [of _ rv1])
    apply (simp add: numeral_2_eq_2 less_Suc_eq)
    done
qed

subsection \<open>The reduced solve: \<^verbatim>\<open>SolvePROM\<close>\<close>

lemma mfem_add_one: "mfem_add a x 1 zv = Vector_Add zv a x"
proof -
  have "map (\<lambda>(xi, zi). a * xi + 1 * zi) (zip x zv) = map (\<lambda>(zi, xi). zi + a * xi) (zip zv x)"
    by (induction x arbitrary: zv) (auto simp: zip_Cons1 split: list.splits)
  then show ?thesis by (simp add: mfem_add_def Vector_Add_def)
qed

lemma AXPBYPCZ_one: "AXPBYPCZ a x b y 1 zv = Vector_Add (Vector_Add zv a x) b y"
  by (simp add: AXPBYPCZ_def AXPBY_def mfem_add_one)

lemma AXPY_eq: "AXPY a x y = Vector_Add y a x"
  by (simp add: AXPY_def Vector_plus_def Vector_Add_def)

lemma SolvePROM_expand_foldl:
  "SolvePROM_expand Vb y n j u =
     foldl (\<lambda>u' k. \<lparr>Real_part = Vector_Add (Real_part u') (Re (y ! k)) (Vb ! k),
                     Imag_part = Vector_Add (Imag_part u') (Im (y ! k)) (Vb ! k)\<rparr>)
       u [j..<n]"
proof (induction Vb y n j u rule: SolvePROM_expand.induct)
  case (1 Vb y n j u)
  show ?case
  proof (cases "j < n")
    case False
    then show ?thesis by (simp add: SolvePROM_expand.simps [of Vb y n j u])
  next
    case True
    show ?thesis
    proof (cases "j + 1 < n")
      case two: True
      have l: "[j..<n] = j # Suc j # [j + 2..<n]"
        using two by (simp add: upt_conv_Cons)
      show ?thesis
        using "1.IH"(1) [OF True two] True two
        by (simp add: SolvePROM_expand.simps [of Vb y n j u] l AXPBYPCZ_one)
    next
      case one: False
      with True have n: "n = Suc j" by simp
      have l: "[j..<n] = [j]" using n by simp
      have e: "[j + 2..<n] = []" using n by simp
      show ?thesis
        using "1.IH"(2) [OF True one] True one
        by (simp add: SolvePROM_expand.simps [of Vb y n j u] l e AXPY_eq)
    qed
  qed
qed

lemma ProjectVecInternal_result:
  assumes "n0 < length br"
  shows "\<exists>b'. ProjectVecInternal Vb b br n0 = Inr b' \<and> length b' = length br \<and>
           (\<forall>i<length br. b' ! i =
              (if n0 \<le> i then Complex (LocalDot (Vb ! i) (Real_part b)) (LocalDot (Vb ! i) (Imag_part b))
               else br ! i))"
proof -
  have g: "length (foldl (\<lambda>br' i. br'[i := e i]) br0 ks) = length br0 \<and>
           (\<forall>i<length br0. foldl (\<lambda>br' i. br'[i := e i]) br0 ks ! i = (if i \<in> set ks then e i else br0 ! i))"
    for e :: "nat \<Rightarrow> complex" and br0 ks
    by (induction ks arbitrary: br0) (auto simp: nth_list_update)
  show ?thesis
    using assms g [of "\<lambda>i. Complex (LocalDot (Vb ! i) (Real_part b)) (LocalDot (Vb ! i) (Imag_part b))" br "[n0..<length br]"]
    by (auto simp: ProjectVecInternal_def Let_def)
qed

lemma ProjectMatInternal_Inr:
  assumes "ProjectMatInternal Vb A B rv n0 = Inr p"
  shows "n0 < rows B" and "HasReal A \<or> HasImag A"
  using assms by (auto simp: ProjectMatInternal_def Let_def split: if_splits)

lemma assemble_Ar_coef:
  "coef (assemble_Ar s omega B) i j =
     coef B i j + coef (Kr s) i j
     + (if rows (Cr s) > 0 then \<i> * of_real omega * coef (Cr s) i j else 0)
     - of_real (omega * omega) * coef (Mr s) i j"
  by (simp add: assemble_Ar_def add_scaled_def Let_def)

lemma assemble_Ar_rows: "rows (assemble_Ar s omega B) = rows B"
  by (simp add: assemble_Ar_def add_scaled_def Let_def)

lemma SolvePROM_Ar_coef:
  assumes "SolvePROM_Ar ext omega s = Inr s1"
  shows "rows (Ar s1) = rows (Ar s) \<and>
         (\<forall>i<rows (Ar s). \<forall>j<rows (Ar s). coef (Ar s1) i j = Ar_spec ext s omega i j)"
proof (cases "has_A2 s")
  case False
  with assms have "Ar s1 = assemble_Ar s omega (setZero (Ar s))"
    by (auto simp: SolvePROM_Ar_def)
  with False show ?thesis
    by (simp add: assemble_Ar_coef assemble_Ar_rows Ar_spec_def setZero_def)
next
  case True
  show ?thesis
  proof (cases "GetExtraSystemMatrix ext omega")
    case None
    with assms True show ?thesis by (simp add: SolvePROM_Ar_def)
  next
    case (Some A2)
    show ?thesis
    proof (cases "ProjectMatInternal (V_basis s) A2 (Ar s) (r_work s) 0")
      case (Inl e)
      with assms True Some show ?thesis by (simp add: SolvePROM_Ar_def)
    next
      case (Inr p)
      obtain B0 rv where p: "p = (B0, rv)" by (cases p)
      from assms True Some Inr p have a: "Ar s1 = assemble_Ar s omega B0"
        by (auto simp: SolvePROM_Ar_def)
      from ProjectMatInternal_Inr [OF Inr] have "0 < rows (Ar s)" and "HasReal A2 \<or> HasImag A2"
        by simp_all
      from ProjectMatInternal_result [OF this, where Vb = "V_basis s" and rv = "r_work s"] Inr p
      have "rows B0 = rows (Ar s)"
        and "\<forall>i j. coef B0 i j =
              (if j < 0 \<and> 0 \<le> i \<and> i < rows (Ar s) then VhAV (V_basis s) A2 j i
               else if 0 \<le> j \<and> j < rows (Ar s) \<and> i < rows (Ar s) then VhAV (V_basis s) A2 i j
               else coef (Ar s) i j)"
        by auto
      with a True Some show ?thesis
        by (simp add: assemble_Ar_coef assemble_Ar_rows Ar_spec_def)
    qed
  qed
qed

lemma SolvePROM_Ar_Ar_only:
  assumes "SolvePROM_Ar ext omega s = Inr s1"
  shows "Size (RHS1 s1) = Size (RHS1 s)" and "Kr s1 = Kr s" and "Cr s1 = Cr s" and "Mr s1 = Mr s"
proof -
  from SolvePROM_Ar_shape [OF assms] obtain B rv where
    s1: "s1 = s\<lparr>Ar := B, r_work := rv,
                 calls := (if has_A2 s then calls s @ [CallGetExtraSystemMatrix omega] else calls s)\<rparr>"
    by blast
  show "Size (RHS1 s1) = Size (RHS1 s)" and "Kr s1 = Kr s" and "Cr s1 = Cr s" and "Mr s1 = Mr s"
    unfolding s1 by simp_all
qed

lemma assemble_RHSr_nth:
  assumes "i < length (assemble_RHSr s omega b)"
  shows "assemble_RHSr s omega b ! i =
           (if Size (RHS1 s) \<noteq> 0 then \<i> * of_real omega * RHS1r s ! i else 0) + b ! i"
  using assms by (auto simp: assemble_RHSr_def)

lemma assemble_RHSr_length:
  "length (assemble_RHSr s omega b) =
     (if Size (RHS1 s) \<noteq> 0 then min (length b) (length (RHS1r s)) else length b)"
  by (simp add: assemble_RHSr_def)

lemma SolvePROM_RHSr_coef:
  assumes "SolvePROM_RHSr ext omega s = Inr s2"
  shows "Ar s2 = Ar s \<and> V_basis s2 = V_basis s \<and> dim_V s2 = dim_V s \<and>
         length (RHSr s2) =
           (if Size (RHS1 s) \<noteq> 0 then min (length (RHSr s)) (length (RHS1r s)) else length (RHSr s)) \<and>
         (\<forall>i<length (RHSr s2). RHSr s2 ! i = RHSr_spec ext s omega i)"
proof (cases "has_RHS2 s")
  case False
  with assms have s2: "s2 = s\<lparr>RHSr := assemble_RHSr s omega (map (\<lambda>b. 0) (RHSr s))\<rparr>"
    by (auto simp: SolvePROM_RHSr_def)
  show ?thesis
    unfolding s2 using False
    by (auto simp: assemble_RHSr_nth assemble_RHSr_length RHSr_spec_def)
next
  case True
  obtain flag rv where g: "GetExcitationVector2 ext omega = (flag, rv)"
    by (cases "GetExcitationVector2 ext omega")
  show ?thesis
  proof (cases "ProjectVecInternal (V_basis s) rv (RHSr s) 0")
    case (Inl e)
    with assms True g show ?thesis by (simp add: SolvePROM_RHSr_def)
  next
    case (Inr b)
    with assms True g have s2: "s2 = s\<lparr>RHSr := assemble_RHSr s omega b, r_work := rv,
                                          calls := calls s @ [CallGetExcitationVector2 omega]\<rparr>"
      by (auto simp: SolvePROM_RHSr_def)
    from Inr have "0 < length (RHSr s)"
      by (auto simp: ProjectVecInternal_def Let_def split: if_splits)
    from ProjectVecInternal_result [OF this, of "V_basis s" rv] Inr
    have l: "length b = length (RHSr s)"
      and e: "\<forall>i<length (RHSr s). b ! i =
                Complex (LocalDot (V_basis s ! i) (Real_part rv)) (LocalDot (V_basis s ! i) (Imag_part rv))"
      by auto
    show ?thesis
      unfolding s2 using True g l e
      by (auto simp: assemble_RHSr_nth assemble_RHSr_length RHSr_spec_def)
  qed
qed

lemma RHSr_spec_cong:
  assumes "RHS1 s1 = RHS1 s" and "RHS1r s1 = RHS1r s" and "has_RHS2 s1 = has_RHS2 s"
    and "V_basis s1 = V_basis s"
  shows "RHSr_spec ext s1 omega i = RHSr_spec ext s omega i"
  using assms by (simp add: RHSr_spec_def)

text \<open>
  Claim C5. When \<^verbatim>\<open>SolvePROM\<close> returns, the reduced solution it leaves in \<open>RHSr\<close> is the result
  of the pivoted LU solve (\<^verbatim>\<open>partialPivLu().solve\<close>) for a matrix \<open>B\<close> and a right-hand side
  \<open>b\<close> whose coefficients are those of the specification's \<open>Ar(omega)\<close> and \<open>RHSr(omega)\<close>, and
  the vector it returns is the linear combination \<open>\<Sum>\<^sub>j y\<^sub>j V[j]\<close> of the first \<open>dim_V\<close> basis
  vectors built one column at a time from zero, which is what the loop over pairs of
  columns (with the single last column of an odd \<open>dim_V\<close>) computes.
\<close>

theorem SolvePROM_solves_and_expands:
  assumes "SolvePROM ext omega u s = Inr (s', u')"
  shows "\<exists>B b.
           rows B = rows (Ar s) \<and>
           (\<forall>i<rows (Ar s). \<forall>j<rows (Ar s). coef B i j = Ar_spec ext s omega i j) \<and>
           length b =
             (if Size (RHS1 s) \<noteq> 0 then min (length (RHSr s)) (length (RHS1r s)) else length (RHSr s)) \<and>
           (\<forall>i<length b. b ! i = RHSr_spec ext s omega i) \<and>
           RHSr s' = partialPivLu_solve ext B b \<and>
           u' = expand_naive (V_basis s) (RHSr s') (dim_V s)
                  \<lparr>Real_part = set_zero (Real_part u), Imag_part = set_zero (Imag_part u)\<rparr> \<and>
           u' = SolvePROM_expand (V_basis s) (RHSr s') (dim_V s) 0
                  \<lparr>Real_part = set_zero (Real_part u), Imag_part = set_zero (Imag_part u)\<rparr>"
proof -
  from assms obtain s1 s2 where a: "SolvePROM_Ar ext omega s = Inr s1"
    and b: "SolvePROM_RHSr ext omega s1 = Inr s2"
    and c: "s' = s2\<lparr>RHSr := partialPivLu_solve ext (Ar s2) (RHSr s2)\<rparr>"
    and d: "u' = SolvePROM_expand (V_basis s2) (partialPivLu_solve ext (Ar s2) (RHSr s2)) (dim_V s2) 0
               \<lparr>Real_part = set_zero (Real_part u), Imag_part = set_zero (Imag_part u)\<rparr>"
    by (rule SolvePROM_stages)
  note k = SolvePROM_Ar_keeps [OF a]
  from SolvePROM_Ar_coef [OF a] have A: "rows (Ar s1) = rows (Ar s)"
    "\<forall>i<rows (Ar s). \<forall>j<rows (Ar s). coef (Ar s1) i j = Ar_spec ext s omega i j"
    by simp_all
  from SolvePROM_RHSr_coef [OF b] have R: "Ar s2 = Ar s1" "V_basis s2 = V_basis s1" "dim_V s2 = dim_V s1"
    "length (RHSr s2) =
       (if Size (RHS1 s1) \<noteq> 0 then min (length (RHSr s1)) (length (RHS1r s1)) else length (RHSr s1))"
    "\<forall>i<length (RHSr s2). RHSr s2 ! i = RHSr_spec ext s1 omega i"
    by simp_all
  have sp: "RHSr_spec ext s1 omega i = RHSr_spec ext s omega i" for i
    using k by (intro RHSr_spec_cong) simp_all
  have y: "RHSr s' = partialPivLu_solve ext (Ar s1) (RHSr s2)"
    using c R(1) by simp
  have u1: "u' = SolvePROM_expand (V_basis s) (RHSr s') (dim_V s) 0
               \<lparr>Real_part = set_zero (Real_part u), Imag_part = set_zero (Imag_part u)\<rparr>"
    using d y R k by simp
  have u2: "u' = expand_naive (V_basis s) (RHSr s') (dim_V s)
               \<lparr>Real_part = set_zero (Real_part u), Imag_part = set_zero (Imag_part u)\<rparr>"
    unfolding u1 expand_naive_def by (rule SolvePROM_expand_foldl)
  show ?thesis
    apply (rule exI [of _ "Ar s1"], rule exI [of _ "RHSr s2"])
    using A R(4) R(5) sp y u1 u2 k SolvePROM_Ar_Ar_only [OF a] by simp
qed

lemma upt_4: "[0..<4] = [0, 1, 2, 3]"
  by (simp add: upt_rec)

lemma scenario_Ar:
  "SolvePROM_Ar ext omega scenario_rom =
     Inr (scenario_rom\<lparr>Ar := assemble_Ar scenario_rom omega (setZero (Ar scenario_rom))\<rparr>)"
  by (simp add: SolvePROM_Ar_def scenario_rom_def)

lemma scenario_RHSr:
  "SolvePROM_RHSr ext omega
     (scenario_rom\<lparr>Ar := assemble_Ar scenario_rom omega (setZero (Ar scenario_rom))\<rparr>) =
   Inr (scenario_rom\<lparr>Ar := assemble_Ar scenario_rom omega (setZero (Ar scenario_rom)),
                      RHSr := [\<i> * of_real omega, \<i> * of_real omega, \<i> * of_real omega, \<i> * of_real omega]\<rparr>)"
  by (simp add: SolvePROM_RHSr_def assemble_RHSr_def scenario_rom_def Size_def)

lemma scenario_coef:
  "coef (assemble_Ar scenario_rom omega (setZero (Ar scenario_rom))) i j =
     (if i = j then of_nat (i + 1) - of_real (omega * omega) else 0)"
  by (simp add: assemble_Ar_coef setZero_def scenario_rom_def)

lemma scenario_reduced:
  "SolvePROM_reduced ext omega u scenario_rom =
     Inr (partialPivLu_solve ext (assemble_Ar scenario_rom omega (setZero (Ar scenario_rom)))
            [\<i> * of_real omega, \<i> * of_real omega, \<i> * of_real omega, \<i> * of_real omega])"
  by (simp add: SolvePROM_reduced_def SolvePROM_def scenario_Ar scenario_RHSr Let_def)

lemma example_ext_solver: "partialPivLu_solve example_ext = diag_solve"
  by (simp add: example_ext_def)

lemma example_ext_exact: "exact_on_diagonal example_ext"
  by (simp add: exact_on_diagonal_def example_ext_solver diag_solve_def)

text \<open>
  Claim C3, as the code has it. The right-hand side of the reduced system is
  \<open>i omega RHS1r\<close>, which is zero at \<open>omega = 0\<close>: for the system of the scenario and every
  dense solver that is exact on nonsingular diagonal systems, \<^verbatim>\<open>SolvePROM\<close> at \<open>omega = 0\<close>
  leaves the zero vector as the reduced solution.
\<close>

theorem SolvePROM_scenario_at_zero:
  assumes "exact_on_diagonal ext"
  shows "SolvePROM_reduced ext 0 u scenario_rom = Inr [0, 0, 0, 0]"
proof -
  let ?A = "assemble_Ar scenario_rom 0 (setZero (Ar scenario_rom))"
  let ?b = "[\<i> * of_real 0, \<i> * of_real 0, \<i> * of_real 0, \<i> * of_real (0::real)]"
  have d: "(\<forall>i<length ?b. \<forall>j<length ?b. i \<noteq> j \<longrightarrow> coef ?A i j = 0) \<and>
           (\<forall>i<length ?b. coef ?A i i \<noteq> 0)"
    by (simp add: scenario_coef of_nat_eq_0_iff del: of_nat_Suc of_nat_add)
  from assms d have "partialPivLu_solve ext ?A ?b = map (\<lambda>i. ?b ! i / coef ?A i i) [0..<length ?b]"
    unfolding exact_on_diagonal_def by blast
  also have "\<dots> = [0, 0, 0, 0]"
    by (simp add: upt_4)
  finally show ?thesis
    by (simp add: scenario_reduced)
qed

theorem SolvePROM_scenario_at_zero_witness:
  "exact_on_diagonal example_ext \<and>
   SolvePROM_reduced example_ext 0 \<lparr>Real_part = [0, 0, 0, 0], Imag_part = [0, 0, 0, 0]\<rparr> scenario_rom =
     Inr [0, 0, 0, 0]"
  using SolvePROM_scenario_at_zero [OF example_ext_exact] example_ext_exact by simp

text \<open>
  The scenario as the specification states it fails on the code: the reduced solution at
  \<open>omega = 0\<close> is the zero vector, which is not within \<open>10\<^sup>-\<^sup>1\<^sup>0\<close> of \<open>[1, 1/2, 1/3, 1/4]\<close>.
\<close>

theorem SolvePROM_scenario_counterexample:
  "SolvePROM_reduced example_ext 0 \<lparr>Real_part = [0, 0, 0, 0], Imag_part = [0, 0, 0, 0]\<rparr> scenario_rom =
     Inr [0, 0, 0, 0] \<and>
   \<not> list_all2 (\<lambda>a b. cmod (a - b) \<le> 1 / 10 ^ 10) [0, 0, 0, 0] [1, 1 / 2, 1 / 3, 1 / 4]"
  by (simp add: scenario_reduced example_ext_solver diag_solve_def upt_4)

theorem SolvePROM_solves_and_expands_witness:
  "\<exists>s' u'.
     SolvePROM example_ext 3 \<lparr>Real_part = [5, 5, 5, 5], Imag_part = [5, 5, 5, 5]\<rparr> scenario_rom = Inr (s', u') \<and>
     RHSr s' = [- (3 / 8) * \<i>, - (3 / 7) * \<i>, - (1 / 2) * \<i>, - (3 / 5) * \<i>] \<and>
     u' = \<lparr>Real_part = [0, 0, 0, 0], Imag_part = [- (3 / 8), - (3 / 7), - (1 / 2), - (3 / 5)]\<rparr>"
proof -
  let ?u = "\<lparr>Real_part = [5, 5, 5, 5], Imag_part = [5, 5, 5, 5 :: real]\<rparr>"
  have r: "SolvePROM_reduced example_ext 3 ?u scenario_rom =
             Inr [- (3 / 8) * \<i>, - (3 / 7) * \<i>, - (1 / 2) * \<i>, - (3 / 5) * \<i>]"
    by (simp add: scenario_reduced example_ext_solver diag_solve_def upt_4 scenario_coef)
  then obtain s' u' where p: "SolvePROM example_ext 3 ?u scenario_rom = Inr (s', u')"
    and y: "RHSr s' = [- (3 / 8) * \<i>, - (3 / 7) * \<i>, - (1 / 2) * \<i>, - (3 / 5) * \<i>]"
    by (auto simp: SolvePROM_reduced_def split: sum.splits)
  from SolvePROM_solves_and_expands [OF p]
  have "u' = expand_naive (V_basis scenario_rom) (RHSr s') (dim_V scenario_rom)
               \<lparr>Real_part = set_zero (Real_part ?u), Imag_part = set_zero (Imag_part ?u)\<rparr>"
    by blast
  also have "\<dots> = \<lparr>Real_part = [0, 0, 0, 0], Imag_part = [- (3 / 8), - (3 / 7), - (1 / 2), - (3 / 5)]\<rparr>"
    by (simp add: y expand_naive_def scenario_rom_def upt_4 set_zero_def Vector_Add_def)
  finally show ?thesis using p y by blast
qed

subsection \<open>The basis update: \<^verbatim>\<open>UpdatePROM\<close>\<close>














































subsection \<open>The eigenvalue iterations: \<^verbatim>\<open>MSLP\<close> and \<^verbatim>\<open>RII\<close>\<close>

lemma MSLP_loop_no_warning:
  "MSLP_loop ed F it lambda x res lg = Inr (lambda', x', it', res', lg') \<Longrightarrow>
   \<not> list_ex is_warning lg \<Longrightarrow> \<not> list_ex is_warning lg'"
proof (induction ed F it lambda x res lg rule: MSLP_loop.induct)
  case (1 ed F it lambda x res lg)
  show ?case
  proof (cases "it < max_it")
    case False
    with "1.prems" show ?thesis
      by (simp add: MSLP_loop.simps [of ed F it lambda x res lg])
  next
    case True
    show ?thesis
    proof (cases "F lambda res")
      case (Inl e)
      with True "1.prems" show ?thesis
        by (simp add: MSLP_loop.simps [of ed F it lambda x res lg])
    next
      case (Inr p)
      obtain T dT where p: "p = (T, dT)"
        by (cases p)
      obtain mu vecs where E: "ComplexEigenSolver ed (lu_solve_mat ed dT T) = (mu, vecs)"
        by (cases "ComplexEigenSolver ed (lu_solve_mat ed dT T)")
      show ?thesis
      proof (cases "ieee_below (residual T x) tol")
        case below: True
        with True Inr p "1.prems" show ?thesis
          by (auto simp add: MSLP_loop.simps [of ed F it lambda x res lg])
      next
        case notbelow: False
        show ?thesis
        proof (cases "mu = []")
          case empty: True
          with True Inr p E notbelow "1.prems" show ?thesis
            by (simp add: MSLP_loop.simps [of ed F it lambda x res lg])
        next
          case nonempty: False
          from True Inr p E notbelow nonempty "1.prems" (1)
          have rec: "MSLP_loop ed F (it + 1) (lambda - mu ! min_element mu) (vecs (min_element mu))
                       (residual T x) ((lg @ [PrintMSLPIteration it]) @ [PrintMu (min_element mu)])
                     = Inr (lambda', x', it', res', lg')"
            by (simp add: MSLP_loop.simps [of ed F it lambda x res lg])
          from "1.prems" (2)
          have nw: "\<not> list_ex is_warning ((lg @ [PrintMSLPIteration it]) @ [PrintMu (min_element mu)])"
            by simp
          from "1.IH" [OF True Inr p [symmetric] refl refl notbelow E [symmetric] nonempty rec nw]
          show ?thesis .
        qed
      qed
    qed
  qed
qed

lemma MSLP_no_warning:
  "MSLP ed n F lambda = Inr (lambda', x', it, lg) \<Longrightarrow> \<not> list_ex is_warning lg"
  unfolding MSLP_def
  by (auto split: sum.splits prod.splits if_splits dest: MSLP_loop_no_warning)

lemma RII_inner_no_warning:
  "RII_inner ed F luT x res inner_it lambda TdT lg = Inr (inner_it', lambda', lg') \<Longrightarrow>
   \<not> list_ex is_warning lg \<Longrightarrow> \<not> list_ex is_warning lg'"
proof (induction ed F luT x res inner_it lambda TdT lg rule: RII_inner.induct)
  case (1 ed F luT x res inner_it lambda TdT lg)
  show ?case
  proof (cases "inner_it < max_it")
    case False
    with "1.prems" show ?thesis
      by (simp add: RII_inner.simps [of ed F luT x res inner_it lambda TdT lg])
  next
    case True
    show ?thesis
    proof (cases "if inner_it > 0 then F lambda res else Inr TdT")
      case (Inl e)
      with True "1.prems" show ?thesis
        by (simp add: RII_inner.simps [of ed F luT x res inner_it lambda TdT lg])
    next
      case (Inr p)
      obtain T dT where p: "p = (T, dT)"
        by (cases p)
      let ?num = "adjoint_dot x (lu_solve_vec ed luT (mat_vec T x))"
      let ?den = "adjoint_dot x (lu_solve_vec ed luT (mat_vec dT x))"
      show ?thesis
      proof (cases "?den = 0 \<or> cmod (?num / ?den) < sqrt_epsilon * cmod lambda")
        case stop: True
        with True Inr p "1.prems" show ?thesis
          by (auto simp add: RII_inner.simps [of ed F luT x res inner_it lambda TdT lg] Let_def
                   split: if_splits)
      next
        case go: False
        from True Inr p go "1.prems" (1)
        have rec: "RII_inner ed F luT x res (inner_it + 1) (lambda - ?num / ?den) (T, dT)
                     (lg @ [PrintRIIInner inner_it]) = Inr (inner_it', lambda', lg')"
          by (simp add: RII_inner.simps [of ed F luT x res inner_it lambda TdT lg] Let_def)
        from "1.prems" (2) have nw: "\<not> list_ex is_warning (lg @ [PrintRIIInner inner_it])"
          by simp
        from go have d: "?den \<noteq> 0" and c: "\<not> cmod (?num / ?den) < sqrt_epsilon * cmod lambda"
          by simp_all
        from "1.IH" [OF True Inr p [symmetric] refl refl refl d c rec nw]
        show ?thesis .
      qed
    qed
  qed
qed

lemma RII_loop_no_warning:
  "RII_loop ed F it lambda x res TdT luT lg = Inr (lambda', x', it', res', lg') \<Longrightarrow>
   \<not> list_ex is_warning lg \<Longrightarrow> \<not> list_ex is_warning lg'"
proof (induction ed F it lambda x res TdT luT lg rule: RII_loop.induct)
  case (1 ed F it lambda x res TdT luT lg)
  show ?case
  proof (cases "it < max_it")
    case False
    with "1.prems" show ?thesis
      by (simp add: RII_loop.simps [of ed F it lambda x res TdT luT lg])
  next
    case True
    show ?thesis
    proof (cases "RII_inner ed F luT x res 0 lambda TdT lg")
      case (Inl e)
      with True "1.prems" show ?thesis
        by (simp add: RII_loop.simps [of ed F it lambda x res TdT luT lg])
    next
      case (Inr q)
      obtain inner_it lambda1 lg1 where q: "q = (inner_it, lambda1, lg1)"
        by (cases q)
      from Inr q "1.prems" (2) have nw1: "\<not> list_ex is_warning lg1"
        by (auto dest: RII_inner_no_warning)
      show ?thesis
      proof (cases "F lambda1 res")
        case Fl: (Inl e)
        with True Inr q "1.prems" show ?thesis
          by (simp add: RII_loop.simps [of ed F it lambda x res TdT luT lg])
      next
        case Fr: (Inr p)
        obtain T dT where p: "p = (T, dT)"
          by (cases p)
        let ?x = "map (\<lambda>(xi, di). xi - di) (zip x (lu_solve_vec ed T (mat_vec T x)))"
        show ?thesis
        proof (cases "ieee_below (residual T x) tol")
          case below: True
          with True Inr q Fr p nw1 "1.prems" show ?thesis
            by (auto simp add: RII_loop.simps [of ed F it lambda x res TdT luT lg])
        next
          case notbelow: False
          show ?thesis
          proof (cases "normalize_vec ?x")
            case Nl: (Inl e)
            with True Inr q Fr p notbelow "1.prems" show ?thesis
              by (simp add: RII_loop.simps [of ed F it lambda x res TdT luT lg])
          next
            case Nr: (Inr xn)
            from True Inr q Fr p notbelow Nr "1.prems" (1)
            have rec: "RII_loop ed F (it + 1) lambda1 xn (residual T x) (T, dT) T
                         (lg1 @ [PrintRIIIteration it inner_it]) = Inr (lambda', x', it', res', lg')"
              by (simp add: RII_loop.simps [of ed F it lambda x res TdT luT lg])
            from nw1 have nw: "\<not> list_ex is_warning (lg1 @ [PrintRIIIteration it inner_it])"
              by simp
            from "1.IH" [OF True Inr q [symmetric] refl Fr p [symmetric] refl refl notbelow Nr rec nw]
            show ?thesis .
          qed
        qed
      qed
    qed
  qed
qed

lemma RII_no_warning:
  "RII ed n F lambda = Inr (lambda', x', it, lg) \<Longrightarrow> \<not> list_ex is_warning lg"
  unfolding RII_def
  by (auto split: sum.splits prod.splits if_splits dest: RII_loop_no_warning)

lemma MSLP_loop_exit:
  "\<not> it < max_it \<Longrightarrow> MSLP_loop ed F it lambda x res lg = Inr (lambda, x, it, res, lg)"
  by (simp add: MSLP_loop.simps [of ed F it lambda x res lg])

lemma scalar_dense_sel:
  "Random scalar_dense n = replicate n 1"
  "lu_solve_mat scalar_dense A B = scalar_matrix (coef B 0 0 / coef A 0 0)"
  "ComplexEigenSolver scalar_dense A = ([coef A 0 0], \<lambda>i. [1])"
  by (simp_all add: scalar_dense_def)

lemma residual_scalar:
  "c \<noteq> 0 \<Longrightarrow> residual (scalar_matrix c) [1] = Finite 1"
  by (simp add: residual_def scalar_matrix_def mat_norm_def vec_norm_def mat_vec_def)

lemma MSLP_lines_step:
  "a < b \<Longrightarrow> MSLP_lines a b = [PrintMSLPIteration a, PrintMu 0] @ MSLP_lines (Suc a) b"
  by (simp add: MSLP_lines_def upt_conv_Cons)

lemma square_T_step:
  fixes l :: complex
  assumes "it < max_it" and "l \<noteq> 0"
  shows "MSLP_loop scalar_dense square_T it l [1] res lg =
         MSLP_loop scalar_dense square_T (Suc it) (l / 2) [1] (Finite 1)
           (lg @ [PrintMSLPIteration it, PrintMu 0])"
proof -
  have r: "residual (scalar_matrix (l\<^sup>2)) [1] = Finite 1"
    using assms(2) by (simp add: residual_scalar)
  have m: "min_element [l\<^sup>2 / (2 * l)] = 0"
    by (simp add: min_element_def)
  have d: "l - l\<^sup>2 / (2 * l) = l / 2"
    using assms(2) by (simp add: power2_eq_square field_simps)
  show ?thesis
    using assms(1) r
    by (simp add: MSLP_loop.simps [of scalar_dense square_T it l "[1]" res lg] square_T_def
          scalar_dense_sel tol_def m d)
       (simp add: scalar_matrix_def m d)
qed

lemma square_T_loop:
  "it \<le> 100 \<Longrightarrow>
   MSLP_loop scalar_dense square_T it (1 / 2 ^ it) [1] (Finite 1) lg =
   Inr (1 / 2 ^ 100, [1], 100, Finite 1, lg @ MSLP_lines it 100)"
proof (induction "100 - it" arbitrary: it lg)
  case 0
  then have "it = 100"
    by simp
  then show ?case
    by (simp add: MSLP_loop_exit max_it_def MSLP_lines_def)
next
  case (Suc k)
  then have lt: "it < 100" and k: "k = 100 - Suc it" and le: "Suc it \<le> 100"
    by simp_all
  have h: "(1 / 2 ^ it) / 2 = (1 :: complex) / 2 ^ Suc it"
    by simp
  have "MSLP_loop scalar_dense square_T it (1 / 2 ^ it) [1] (Finite 1) lg =
        MSLP_loop scalar_dense square_T (Suc it) (1 / 2 ^ Suc it) [1] (Finite 1)
          (lg @ [PrintMSLPIteration it, PrintMu 0])"
    using square_T_step [of it "1 / 2 ^ it" "Finite 1" lg] lt unfolding h
    by (simp add: max_it_def)
  also have "\<dots> = Inr (1 / 2 ^ 100, [1], 100, Finite 1,
                     (lg @ [PrintMSLPIteration it, PrintMu 0]) @ MSLP_lines (Suc it) 100)"
    using Suc.hyps(1) [OF k le] .
  finally show ?case
    using lt by (simp add: MSLP_lines_step)
qed

lemma MSLP_lines_no_warning:
  "\<not> list_ex is_warning (MSLP_lines a b)"
  by (simp add: MSLP_lines_def list_ex_iff)

text \<open>
  C9. On the scalar problem \<open>T(\<lambda>) = \<lambda>\<^sup>2\<close> from \<open>\<lambda> = 1\<close> the relative residual is \<open>1\<close> in every
  pass: \<^verbatim>\<open>MSLP\<close> leaves its loop with \<open>it = max_it = 100\<close>, returns the estimates of the last
  pass, and its output consists of the progress lines of the hundred passes, with no warning.
\<close>

theorem MSLP_max_it_silent:
  "MSLP scalar_dense 1 square_T 1 = Inr (1 / 2 ^ 100, [1], max_it, MSLP_lines 0 max_it) \<and>
   \<not> list_ex is_warning (MSLP_lines 0 max_it)"
proof -
  have n: "normalize_vec (Random scalar_dense (Suc 0)) = Inr [1]"
    by (simp add: normalize_vec_def scalar_dense_sel vec_norm_def)
  have "MSLP_loop scalar_dense square_T 0 (1 / 2 ^ 0) [1] (Finite 1) [] =
        Inr (1 / 2 ^ 100, [1], 100, Finite 1, [] @ MSLP_lines 0 100)"
    by (rule square_T_loop) simp
  then show ?thesis
    by (simp add: MSLP_def n max_it_def MSLP_lines_no_warning)
qed

subsection \<open>Deflation: \<^verbatim>\<open>SolveNEP\<close>\<close>























end
